theory Spec2Isabelle
  imports Complex_Main "HOL-Library.Word" "HOL-Library.Sublist"
begin

unbundle bit_operations_syntax

section \<open>Error codes\<close>

text \<open>
  The values of \<open>cardano_error_t\<close> that the modelled functions return. The sources spell
  some of them with and some without \<open>ERROR\<close> in the name (\<open>CARDANO_POINTER_IS_NULL\<close> in
  metadatum.c, \<open>CARDANO_ERROR_POINTER_IS_NULL\<close> in plutus_data_set.c); one constructor
  stands for both spellings. \<open>PROCESS_ABORTED\<close> is not a value of the enum: it stands for a
  run that does not return (a failed \<open>assert\<close>, or a NULL dereference inside json-c).
\<close>

datatype cardano_error_t =
    CARDANO_SUCCESS
  | CARDANO_ERROR_INSUFFICIENT_BUFFER_SIZE
  | CARDANO_ERROR_POINTER_IS_NULL
  | CARDANO_ERROR_MEMORY_ALLOCATION_FAILED
  | CARDANO_ERROR_OUT_OF_BOUNDS_MEMORY_READ
  | CARDANO_ERROR_ENCODING
  | CARDANO_ERROR_DECODING
  | CARDANO_ERROR_INVALID_BLAKE2B_HASH_SIZE
  | CARDANO_ERROR_UNEXPECTED_CBOR_TYPE
  | CARDANO_ERROR_INVALID_CBOR_VALUE
  | CARDANO_ERROR_INVALID_CBOR_ARRAY_SIZE
  | CARDANO_ERROR_INVALID_METADATUM_CONVERSION
  | CARDANO_ERROR_INVALID_METADATUM_BOUNDED_BYTES_SIZE
  | CARDANO_ERROR_INVALID_METADATUM_TEXT_STRING_SIZE
  | CARDANO_ERROR_INVALID_JSON
  | CARDANO_ERROR_SCRIPT_EVALUATION_FAILURE
  | CARDANO_ERROR_ELEMENT_NOT_FOUND
  | PROCESS_ABORTED

type_synonym byte = "8 word"

section \<open>C strings and the C library\<close>

text \<open>
  A \<open>const char*\<close> is modelled by the characters it points to. \<open>strlen\<close> stops at the
  first NUL character, so a character list that holds one is read as the string before it.
\<close>

definition strlen :: "string \<Rightarrow> nat" where
  "strlen s = length (takeWhile (\<lambda>c. c \<noteq> CHR 0x00) s)"

text \<open>
  Modelled from the spec: \<open>cardano_safe_strlen\<close> (string_safe.c is not among the sources).
  It measures a string with a cap: the position of the first NUL character among the first
  \<open>max_length\<close> characters, and \<open>max_length\<close> when there is none.
\<close>

definition cardano_safe_strlen :: "string \<Rightarrow> nat \<Rightarrow> nat" where
  "cardano_safe_strlen str max_length =
     length (takeWhile (\<lambda>c. c \<noteq> CHR 0x00) (take max_length str))"

definition isspace :: "char \<Rightarrow> bool" where
  "isspace c = (c \<in> set [CHR 0x20, CHR 0x09, CHR 0x0A, CHR 0x0B, CHR 0x0C, CHR 0x0D])"

definition isdigit :: "char \<Rightarrow> bool" where
  "isdigit c = (48 \<le> (of_char c :: nat) \<and> (of_char c :: nat) \<le> 57)"

definition digit_value :: "char \<Rightarrow> nat" where
  "digit_value c = of_char c - 48"

text \<open>The value of a run of decimal digits, most significant first.\<close>

fun digits_value :: "nat \<Rightarrow> string \<Rightarrow> nat" where
  "digits_value acc [] = acc"
| "digits_value acc (c # cs) = digits_value (acc * 10 + digit_value c) cs"

text \<open>
  The subject sequence of \<open>strtol\<close> and \<open>strtoull\<close> in base 10: white space is
  skipped, one sign is read, then the longest run of digits. The result is the sign, the
  magnitude and the unread rest; \<open>None\<close> when no digit stands there (no conversion).
\<close>

definition strto_subject :: "string \<Rightarrow> (bool \<times> nat \<times> string) option" where
  "strto_subject nptr =
     (let s1 = dropWhile isspace nptr;
          negative = (s1 \<noteq> [] \<and> hd s1 = CHR ''-'');
          s2 = (if s1 \<noteq> [] \<and> (hd s1 = CHR ''-'' \<or> hd s1 = CHR ''+'') then tl s1 else s1);
          ds = takeWhile isdigit s2
      in if ds = [] then None else Some (negative, digits_value 0 ds, dropWhile isdigit s2))"

text \<open>
  \<open>strtol(nptr, &endptr, 10)\<close> with a 64-bit \<open>long\<close>: the value, clamped to
  \<open>LONG_MIN .. LONG_MAX\<close>, and the string \<open>endptr\<close> points to (\<open>nptr\<close> itself when
  nothing was converted).
\<close>

definition strtol :: "string \<Rightarrow> int \<times> string" where
  "strtol nptr =
     (case strto_subject nptr of
        None \<Rightarrow> (0, nptr)
      | Some (negative, magnitude, endptr) \<Rightarrow>
          (if negative then max (- (2 ^ 63)) (- int magnitude) else min (2 ^ 63 - 1) (int magnitude),
           endptr))"

text \<open>\<open>strtoull(nptr, &endptr, 10)\<close>: out of range gives \<open>ULLONG_MAX\<close>, a minus sign negates
  the value modulo \<open>2 ^ 64\<close>.\<close>

definition strtoull :: "string \<Rightarrow> 64 word \<times> string" where
  "strtoull nptr =
     (case strto_subject nptr of
        None \<Rightarrow> (0, nptr)
      | Some (negative, magnitude, endptr) \<Rightarrow>
          (if 2 ^ 64 \<le> magnitude then - 1
           else if negative then - of_nat magnitude else of_nat magnitude,
           endptr))"

text \<open>\<open>strchr(s, c)\<close> as the pair of the characters before the first \<open>c\<close> and the string
  from that \<open>c\<close> on; \<open>None\<close> is the NULL result.\<close>

definition strchr :: "string \<Rightarrow> char \<Rightarrow> (string \<times> string) option" where
  "strchr s c =
     (if c \<in> set s then Some (takeWhile (\<lambda>x. x \<noteq> c) s, dropWhile (\<lambda>x. x \<noteq> c) s) else None)"

section \<open>json-c values\<close>

text \<open>
  The JSON values of the json-c library, which the sources use through its API. json-c
  represents the JSON value \<open>null\<close> by the NULL pointer: \<open>JNull\<close> is both. A number is an
  integer (\<open>json_type_int\<close>, stored as \<open>int64_t\<close> or \<open>uint64_t\<close>) or a double. An object
  keeps its members in insertion order.
\<close>

datatype json =
    JNull
  | JBool bool
  | JDouble real
  | JInt int
  | JString string
  | JArray "json list"
  | JObject "(string \<times> json) list"

datatype json_type =
    json_type_null
  | json_type_boolean
  | json_type_double
  | json_type_int
  | json_type_object
  | json_type_array
  | json_type_string

fun json_object_get_type :: "json \<Rightarrow> json_type" where
  "json_object_get_type JNull = json_type_null"
| "json_object_get_type (JBool b) = json_type_boolean"
| "json_object_get_type (JDouble d) = json_type_double"
| "json_object_get_type (JInt n) = json_type_int"
| "json_object_get_type (JString s) = json_type_string"
| "json_object_get_type (JArray xs) = json_type_array"
| "json_object_get_type (JObject kvs) = json_type_object"

text \<open>\<open>json_object_is_type\<close> answers false for every type when the pointer is NULL, except
  for \<open>json_type_null\<close>.\<close>

definition json_object_is_type :: "json \<Rightarrow> json_type \<Rightarrow> bool" where
  "json_object_is_type jso t = (json_object_get_type jso = t)"

text \<open>\<open>json_object_object_get_ex\<close>: \<open>None\<close> when it returns false (no such member, or not
  an object), otherwise the member's value, which may be \<open>JNull\<close>.\<close>

fun json_object_object_get_ex :: "json \<Rightarrow> string \<Rightarrow> json option" where
  "json_object_object_get_ex (JObject kvs) key = map_of kvs key"
| "json_object_object_get_ex jso key = None"

text \<open>\<open>json_object_object_add\<close> replaces the value of a member that exists and appends a new
  member otherwise.\<close>

fun json_object_object_add :: "(string \<times> json) list \<Rightarrow> string \<Rightarrow> json \<Rightarrow> (string \<times> json) list" where
  "json_object_object_add [] key val = [(key, val)]"
| "json_object_object_add ((k, v) # kvs) key val =
     (if k = key then (k, val) # kvs else (k, v) # json_object_object_add kvs key val)"

text \<open>\<open>json_parse_uint64\<close> of json-c: blanks are skipped, a minus sign is an error, the rest
  is read by \<open>strtoull\<close>. \<open>None\<close> is its error return.\<close>

definition json_parse_uint64 :: "string \<Rightarrow> 64 word option" where
  "json_parse_uint64 buf =
     (let b = dropWhile (\<lambda>c. c = CHR 0x20) buf
      in if b \<noteq> [] \<and> hd b = CHR ''-'' then None
         else (case strto_subject b of None \<Rightarrow> None | Some r \<Rightarrow> Some (fst (strtoull b))))"

text \<open>\<open>json_object_get_int64\<close> on an integer: a stored \<open>uint64_t\<close> above \<open>INT64_MAX\<close>
  reads as \<open>INT64_MAX\<close>.\<close>

definition json_object_get_int64 :: "json \<Rightarrow> int" where
  "json_object_get_int64 jso =
     (case jso of
        JInt n \<Rightarrow> max (- (2 ^ 63)) (min (2 ^ 63 - 1) n)
      | JDouble d \<Rightarrow> (if 2 ^ 63 \<le> d then 2 ^ 63 - 1 else if d \<le> - (2 ^ 63) then - (2 ^ 63)
                      else if 0 \<le> d then \<lfloor>d\<rfloor> else \<lceil>d\<rceil>)
      | JBool b \<Rightarrow> (if b then 1 else 0)
      | _ \<Rightarrow> 0)"

text \<open>\<open>json_object_get_uint64\<close>: a negative integer reads as 0, a double is cast, a string
  is parsed, a boolean is 0 or 1, anything else is 0.\<close>

definition json_object_get_uint64 :: "json \<Rightarrow> 64 word" where
  "json_object_get_uint64 jso =
     (case jso of
        JInt n \<Rightarrow> word_of_int (max 0 (min (2 ^ 64 - 1) n))
      | JDouble d \<Rightarrow> (if 2 ^ 64 \<le> d then - 1 else if d < 0 then 0 else word_of_int \<lfloor>d\<rfloor>)
      | JBool b \<Rightarrow> (if b then 1 else 0)
      | JString s \<Rightarrow> (case json_parse_uint64 s of None \<Rightarrow> 0 | Some v \<Rightarrow> v)
      | _ \<Rightarrow> 0)"

section \<open>Metadatum\<close>

text \<open>
  \<open>cardano_metadatum_t\<close> holds a kind and one pointer per kind, of which the one of its
  kind is set: a tagged union. Buffers are byte sequences; the text buffer holds the
  characters of a string. The \<open>last_error\<close> slot of the base object is modelled by the
  calls of \<open>cardano_metadatum_set_last_error\<close> that a function makes, in order, each with
  the metadatum it is made on.
\<close>

datatype cardano_metadatum_kind_t =
    CARDANO_METADATUM_KIND_MAP
  | CARDANO_METADATUM_KIND_LIST
  | CARDANO_METADATUM_KIND_INTEGER
  | CARDANO_METADATUM_KIND_BYTES
  | CARDANO_METADATUM_KIND_TEXT

datatype metadatum =
    Metadatum_Map "(metadatum \<times> metadatum) list"
  | Metadatum_List "metadatum list"
  | Metadatum_Integer int
  | Metadatum_Bytes "byte list"
  | Metadatum_Text string

fun kind :: "metadatum \<Rightarrow> cardano_metadatum_kind_t" where
  "kind (Metadatum_Map m) = CARDANO_METADATUM_KIND_MAP"
| "kind (Metadatum_List l) = CARDANO_METADATUM_KIND_LIST"
| "kind (Metadatum_Integer i) = CARDANO_METADATUM_KIND_INTEGER"
| "kind (Metadatum_Bytes b) = CARDANO_METADATUM_KIND_BYTES"
| "kind (Metadatum_Text t) = CARDANO_METADATUM_KIND_TEXT"

type_synonym last_error_writes = "(metadatum \<times> string) list"

text \<open>\<open>cardano_metadatum_new_string(string, size, &metadatum)\<close> copies \<open>size\<close> (here \<open>sz\<close>) bytes from
  \<open>string\<close> into a new text buffer.\<close>

definition cardano_metadatum_new_string :: "string \<Rightarrow> nat \<Rightarrow> cardano_error_t + metadatum" where
  "cardano_metadatum_new_string string sz = Inr (Metadatum_Text (take sz string))"

definition cardano_metadatum_new_integer_from_int :: "int \<Rightarrow> cardano_error_t + metadatum" where
  "cardano_metadatum_new_integer_from_int integer = Inr (Metadatum_Integer integer)"

definition cardano_metadatum_new_integer_from_uint :: "64 word \<Rightarrow> cardano_error_t + metadatum" where
  "cardano_metadatum_new_integer_from_uint integer = Inr (Metadatum_Integer (uint integer))"

definition cardano_metadatum_new_list :: "metadatum list \<Rightarrow> cardano_error_t + metadatum" where
  "cardano_metadatum_new_list list = Inr (Metadatum_List list)"

definition cardano_metadatum_new_map :: "(metadatum \<times> metadatum) list \<Rightarrow> cardano_error_t + metadatum" where
  "cardano_metadatum_new_map m = Inr (Metadatum_Map m)"

text \<open>
  Modelled from the spec: \<open>cardano_metadatum_list_add\<close> and \<open>cardano_metadatum_map_insert\<close>
  (metadatum_list.c and metadatum_map.c are not among the sources). The spec describes
  ordered collections with stable serialization; an element or a key-value pair is added
  after the ones already there.
\<close>

definition cardano_metadatum_list_add :: "metadatum list \<Rightarrow> metadatum \<Rightarrow> metadatum list" where
  "cardano_metadatum_list_add list element = list @ [element]"

definition cardano_metadatum_map_insert ::
  "(metadatum \<times> metadatum) list \<Rightarrow> metadatum \<Rightarrow> metadatum \<Rightarrow> (metadatum \<times> metadatum) list" where
  "cardano_metadatum_map_insert m key val = m @ [(key, val)]"

subsection \<open>JSON to metadatum\<close>

text \<open>
  \<open>convert_json_to_metadatum\<close> with \<open>handle_json_array\<close> and \<open>handle_json_object\<close>. The two
  handlers are given the elements (members) their loop has still to visit and the list
  (map) built so far; they start with all of them and an empty collection. The
  \<open>assert(json_obj != NULL)\<close> at the head of each function stops the run on a JSON
  \<open>null\<close>, which json-c hands over as the NULL pointer.
\<close>

fun convert_json_to_metadatum :: "json \<Rightarrow> cardano_error_t + metadatum"
  and handle_json_array :: "json list \<Rightarrow> metadatum list \<Rightarrow> cardano_error_t + metadatum"
  and handle_json_object ::
    "(string \<times> json) list \<Rightarrow> (metadatum \<times> metadatum) list \<Rightarrow> cardano_error_t + metadatum"
where
  "convert_json_to_metadatum JNull = Inl PROCESS_ABORTED"
| "convert_json_to_metadatum (JObject kvs) = handle_json_object kvs []"
| "convert_json_to_metadatum (JArray xs) = handle_json_array xs []"
| "convert_json_to_metadatum (JString str) =
     cardano_metadatum_new_string str (cardano_safe_strlen str 64)"
| "convert_json_to_metadatum (JInt n) =
     (let val = json_object_get_int64 (JInt n)
      in if val = 0 then cardano_metadatum_new_integer_from_uint (json_object_get_uint64 (JInt n))
         else cardano_metadatum_new_integer_from_int val)"
| "convert_json_to_metadatum (JBool b) = Inl CARDANO_ERROR_INVALID_JSON"
| "convert_json_to_metadatum (JDouble d) = Inl CARDANO_ERROR_INVALID_JSON"
| "handle_json_array [] list = cardano_metadatum_new_list list"
| "handle_json_array (elem # rest) list =
     (case convert_json_to_metadatum elem of
        Inl error \<Rightarrow> Inl error
      | Inr elem_metadatum \<Rightarrow> handle_json_array rest (cardano_metadatum_list_add list elem_metadatum))"
| "handle_json_object [] m = cardano_metadatum_new_map m"
| "handle_json_object ((key, val) # rest) m =
     (case convert_json_to_metadatum val of
        Inl error \<Rightarrow> Inl error
      | Inr v \<Rightarrow>
          (case cardano_metadatum_new_string key (cardano_safe_strlen key 64) of
             Inl error \<Rightarrow> Inl error
           | Inr meta_key \<Rightarrow> handle_json_object rest (cardano_metadatum_map_insert m meta_key v)))"

text \<open>
  \<open>cardano_metadatum_from_json(json, json_size, &metadatum)\<close>. The text is parsed by
  json-c's \<open>json_tokener_parse\<close>, a parameter here; \<open>None\<close> is a NULL \<open>json\<close> pointer.
  The output pointer is taken to be valid.
\<close>

definition cardano_metadatum_from_json ::
  "(string \<Rightarrow> json) \<Rightarrow> string option \<Rightarrow> nat \<Rightarrow> cardano_error_t + metadatum" where
  "cardano_metadatum_from_json json_tokener_parse json json_size =
     (case json of
        None \<Rightarrow> Inl CARDANO_ERROR_POINTER_IS_NULL
      | Some text \<Rightarrow>
          if json_size = 0 then Inl CARDANO_ERROR_INVALID_JSON
          else (let parsed_json = json_tokener_parse text
                in if parsed_json = JNull then Inl CARDANO_ERROR_INVALID_JSON
                   else convert_json_to_metadatum parsed_json))"

subsection \<open>Metadatum to JSON\<close>

text \<open>
  Modelled from the spec: \<open>cardano_bigint_to_int\<close> (bigint.c is not among the sources). A
  big integer within the range of \<open>int64_t\<close> converts to itself; outside of it the low
  64 bits are kept. No theorem below depends on the second case.
\<close>

definition cardano_bigint_to_int :: "int \<Rightarrow> int" where
  "cardano_bigint_to_int i = sint (word_of_int i :: 64 word)"

text \<open>
  \<open>convert_metadatum_to_json_object\<close>: the JSON value it returns (\<open>JNull\<close> for NULL) and
  the \<open>last_error\<close> messages it sets. The loops over a list and over a map are the two
  companion functions, each given what it has still to visit and the JSON array (object)
  built so far; the map loop is also given the map metadatum, on which it sets the error
  of a key that is not text. In the map loop the source tests \<open>value\<close>, the metadatum, for
  NULL after the recursive call, not \<open>json_value\<close>; the metadatum is never NULL there, so
  the loop goes on and \<open>json_object_object_add\<close> is given whatever the call returned. The
  key is handed to json-c as a C string.
\<close>

fun convert_metadatum_to_json_object :: "metadatum \<Rightarrow> json \<times> last_error_writes"
  and convert_list_elements :: "metadatum list \<Rightarrow> json list \<Rightarrow> json \<times> last_error_writes"
  and convert_map_entries ::
    "metadatum \<Rightarrow> (metadatum \<times> metadatum) list \<Rightarrow> (string \<times> json) list \<Rightarrow> json \<times> last_error_writes"
where
  "convert_metadatum_to_json_object (Metadatum_Integer i) = (JInt (cardano_bigint_to_int i), [])"
| "convert_metadatum_to_json_object (Metadatum_Text t) = (JString t, [])"
| "convert_metadatum_to_json_object (Metadatum_List l) = convert_list_elements l []"
| "convert_metadatum_to_json_object (Metadatum_Map m) = convert_map_entries (Metadatum_Map m) m []"
| "convert_metadatum_to_json_object (Metadatum_Bytes b) =
     (JNull, [(Metadatum_Bytes b, ''Metadatum of type 'bytes' cannot be converted to JSON.'')])"
| "convert_list_elements [] json_array = (JArray json_array, [])"
| "convert_list_elements (meta_elem # rest) json_array =
     (case convert_metadatum_to_json_object meta_elem of
        (elem, w) \<Rightarrow>
          if elem = JNull then (JNull, w)
          else (case convert_list_elements rest (json_array @ [elem]) of
                  (r, w') \<Rightarrow> (r, w @ w')))"
| "convert_map_entries metadatum [] json_map = (JObject json_map, [])"
| "convert_map_entries metadatum ((key, val) # rest) json_map =
     (case key of
        Metadatum_Text key_text \<Rightarrow>
          (case convert_metadatum_to_json_object val of
             (json_value, w) \<Rightarrow>
               (case convert_map_entries metadatum rest
                       (json_object_object_add json_map
                          (takeWhile (\<lambda>c. c \<noteq> CHR 0x00) key_text) json_value) of
                  (r, w') \<Rightarrow> (r, w @ w')))
      | _ \<Rightarrow> (JNull, [(metadatum, ''JSON map keys must be strings.'')]))"

text \<open>
  \<open>cardano_metadatum_to_json(metadatum, json, json_size)\<close>. The metadatum pointer is
  \<open>None\<close> when NULL; the output buffer is \<open>None\<close> when \<open>json\<close> is NULL and its size
  \<open>json_size\<close> otherwise. json-c's serializer \<open>json_object_to_json_string_ext\<close> is a
  parameter. The result is the error code, the text copied into the buffer (with its
  terminator left out) when there is one, and the \<open>last_error\<close> messages set.
\<close>

definition cardano_metadatum_to_json ::
  "(json \<Rightarrow> string) \<Rightarrow> metadatum option \<Rightarrow> nat option \<Rightarrow>
     cardano_error_t \<times> string option \<times> last_error_writes" where
  "cardano_metadatum_to_json json_object_to_json_string_ext metadatum json =
     (case (metadatum, json) of
        (Some m, Some json_size) \<Rightarrow>
          (case convert_metadatum_to_json_object m of
             (json_obj, w) \<Rightarrow>
               if json_obj = JNull then (CARDANO_ERROR_INVALID_METADATUM_CONVERSION, None, w)
               else (let json_str = json_object_to_json_string_ext json_obj;
                         required_size = strlen json_str + 1
                     in if json_size < required_size
                        then (CARDANO_ERROR_INSUFFICIENT_BUFFER_SIZE, None, w)
                        else (CARDANO_SUCCESS, Some (take (strlen json_str) json_str), w)))
      | _ \<Rightarrow> (CARDANO_ERROR_POINTER_IS_NULL, None, []))"

section \<open>Blockfrost script-evaluation response\<close>

datatype cardano_redeemer_tag_t =
    CARDANO_REDEEMER_TAG_SPEND
  | CARDANO_REDEEMER_TAG_MINT
  | CARDANO_REDEEMER_TAG_CERTIFYING
  | CARDANO_REDEEMER_TAG_REWARD
  | CARDANO_REDEEMER_TAG_VOTING
  | CARDANO_REDEEMER_TAG_PROPOSING

text \<open>A redeemer: tag, index, Plutus data (left abstract) and execution units.\<close>

record 'd redeemer =
  redeemer_tag :: cardano_redeemer_tag_t
  redeemer_index :: "64 word"
  redeemer_data :: 'd
  ex_units_memory :: "64 word"
  ex_units_steps :: "64 word"

text \<open>\<open>redeemer_tag_string_to_enum\<close>: \<open>None\<close> when it returns false.\<close>

definition redeemer_tag_string_to_enum :: "string \<Rightarrow> cardano_redeemer_tag_t option" where
  "redeemer_tag_string_to_enum tag_str =
     (if tag_str = ''spend'' then Some CARDANO_REDEEMER_TAG_SPEND
      else if tag_str = ''mint'' then Some CARDANO_REDEEMER_TAG_MINT
      else if tag_str = ''certificate'' then Some CARDANO_REDEEMER_TAG_CERTIFYING
      else if tag_str = ''withdrawal'' then Some CARDANO_REDEEMER_TAG_REWARD
      else if tag_str = ''vote'' then Some CARDANO_REDEEMER_TAG_VOTING
      else if tag_str = ''propose'' then Some CARDANO_REDEEMER_TAG_PROPOSING
      else None)"

text \<open>
  Modelled from the spec: \<open>cardano_redeemer_list_clone\<close> and
  \<open>cardano_redeemer_list_set_ex_units\<close> (redeemer_list.c is not among the sources). The
  clone is a copy of the list. Setting the execution units copies (memory, steps) into
  the first redeemer of the list with the given tag and index; the caller tests the
  result code, and a list with no such redeemer is answered by an error.
\<close>

definition cardano_redeemer_list_clone :: "'d redeemer list \<Rightarrow> cardano_error_t + 'd redeemer list" where
  "cardano_redeemer_list_clone redeemer_list = Inr redeemer_list"

fun cardano_redeemer_list_set_ex_units ::
  "'d redeemer list \<Rightarrow> cardano_redeemer_tag_t \<Rightarrow> 64 word \<Rightarrow> 64 word \<Rightarrow> 64 word \<Rightarrow>
     cardano_error_t + 'd redeemer list" where
  "cardano_redeemer_list_set_ex_units [] t i mem steps = Inl CARDANO_ERROR_ELEMENT_NOT_FOUND"
| "cardano_redeemer_list_set_ex_units (r # rs) t i mem steps =
     (if redeemer_tag r = t \<and> redeemer_index r = i
      then Inr (r\<lparr>ex_units_memory := mem, ex_units_steps := steps\<rparr> # rs)
      else (case cardano_redeemer_list_set_ex_units rs t i mem steps of
              Inl error \<Rightarrow> Inl error
            | Inr rs' \<Rightarrow> Inr (r # rs')))"

text \<open>
  The body of the loop over the members of \<open>EvaluationResult\<close>, on one member
  \<open>(key, val)\<close> and the redeemers as they are when the member is reached. \<open>Inr\<close> is the
  list the loop goes on with (unchanged after a \<open>continue\<close>), \<open>Inl\<close> the error the
  function leaves with. The long \<open>index\<close> is converted to the \<open>uint64_t\<close> parameter.
\<close>

definition parse_tx_eval_entry ::
  "'d redeemer list \<Rightarrow> string \<times> json \<Rightarrow> cardano_error_t + 'd redeemer list" where
  "parse_tx_eval_entry redeemers entry =
     (case entry of (key, val) \<Rightarrow>
        (case strchr key CHR '':'' of
           None \<Rightarrow> Inr redeemers
         | Some (tag_str, colon_ptr) \<Rightarrow>
             if 128 \<le> length tag_str then Inr redeemers
             else (let index_str = tl colon_ptr
                   in if index_str = [] then Inr redeemers
                      else (case strtol index_str of
                              (index, endptr) \<Rightarrow>
                                if endptr \<noteq> [] then Inr redeemers
                                else (case redeemer_tag_string_to_enum tag_str of
                                        None \<Rightarrow> Inr redeemers
                                      | Some tag_enum \<Rightarrow>
                                          (case json_object_object_get_ex val ''memory'' of
                                             None \<Rightarrow> Inr redeemers
                                           | Some memory_obj \<Rightarrow>
                                               (case json_object_object_get_ex val ''steps'' of
                                                  None \<Rightarrow> Inr redeemers
                                                | Some steps_obj \<Rightarrow>
                                                    cardano_redeemer_list_set_ex_units redeemers tag_enum
                                                      (word_of_int index)
                                                      (json_object_get_uint64 memory_obj)
                                                      (json_object_get_uint64 steps_obj))))))))"

text \<open>The loop: the members in order, left at the first error.\<close>

fun parse_tx_eval_entries ::
  "'d redeemer list \<Rightarrow> (string \<times> json) list \<Rightarrow> cardano_error_t + 'd redeemer list" where
  "parse_tx_eval_entries redeemers [] = Inr redeemers"
| "parse_tx_eval_entries redeemers (entry # rest) =
     (case parse_tx_eval_entry redeemers entry of
        Inl error \<Rightarrow> Inl error
      | Inr redeemers' \<Rightarrow> parse_tx_eval_entries redeemers' rest)"

text \<open>
  \<open>cardano_blockfrost_parse_tx_eval_response\<close>, from the value \<open>json_tokener_parse_ex\<close>
  returns for the response text (\<open>JNull\<close> when it returns NULL). The result is the error
  code, the list left in \<open>*redeemers\<close> (\<open>None\<close> once \<open>cardano_redeemer_list_unref\<close> has
  released the clone and cleared the pointer) and the message set on the provider.
  \<open>json_object_object_foreach\<close> dereferences the object's table, which json-c gives as
  NULL for a value that is not an object.
\<close>

definition cardano_blockfrost_parse_tx_eval_response ::
  "json \<Rightarrow> 'd redeemer list \<Rightarrow> cardano_error_t \<times> 'd redeemer list option \<times> string option" where
  "cardano_blockfrost_parse_tx_eval_response parsed_json original_redeemers =
     (case cardano_redeemer_list_clone original_redeemers of
        Inl error \<Rightarrow> (error, None, None)
      | Inr redeemers \<Rightarrow>
          if parsed_json = JNull
          then (CARDANO_ERROR_INVALID_JSON, None, Some ''Failed to parse JSON response'')
          else (case json_object_object_get_ex parsed_json ''result'' of
                  None \<Rightarrow> (CARDANO_ERROR_INVALID_JSON, None, Some ''Failed to parse JSON response'')
                | Some result_obj \<Rightarrow>
                    (case json_object_object_get_ex result_obj ''EvaluationFailure'' of
                       Some evaluation_failure_obj \<Rightarrow>
                         (CARDANO_ERROR_SCRIPT_EVALUATION_FAILURE, None, Some ''Failed evaluate scripts'')
                     | None \<Rightarrow>
                         (case json_object_object_get_ex result_obj ''EvaluationResult'' of
                            None \<Rightarrow>
                              (CARDANO_ERROR_INVALID_JSON, None, Some ''Failed to parse JSON response'')
                          | Some (JObject members) \<Rightarrow>
                              (case parse_tx_eval_entries redeemers members of
                                 Inl error \<Rightarrow> (error, None, Some ''Failed to parse JSON response'')
                               | Inr redeemers' \<Rightarrow> (CARDANO_SUCCESS, Some redeemers', None))
                          | Some other \<Rightarrow> (PROCESS_ABORTED, None, None)))))"

subsection \<open>The entries as the specification describes them\<close>

text \<open>
  The specification's reading of a member of \<open>EvaluationResult\<close>, to be compared with the
  loop above. The six recognised tags and the redeemer tag each stands for.
\<close>

definition spec_redeemer_tags :: "(string \<times> cardano_redeemer_tag_t) list" where
  "spec_redeemer_tags =
     [(''spend'', CARDANO_REDEEMER_TAG_SPEND),
      (''mint'', CARDANO_REDEEMER_TAG_MINT),
      (''certificate'', CARDANO_REDEEMER_TAG_CERTIFYING),
      (''withdrawal'', CARDANO_REDEEMER_TAG_REWARD),
      (''vote'', CARDANO_REDEEMER_TAG_VOTING),
      (''propose'', CARDANO_REDEEMER_TAG_PROPOSING)]"

text \<open>A key of the form \<open>tag:index\<close>: what stands before its first colon and what stands
  after it. \<open>None\<close> for a key with no colon.\<close>

definition spec_key_parts :: "string \<Rightarrow> (string \<times> string) option" where
  "spec_key_parts key =
     (if CHR '':'' \<in> set key
      then (let tag_part = takeWhile (\<lambda>c. c \<noteq> CHR '':'') key
            in Some (tag_part, drop (Suc (length tag_part)) key))
      else None)"

text \<open>A well-formed index: decimal digits only, at least one, with a value below \<open>2 ^ 63\<close>.\<close>

definition spec_decimal_index :: "string \<Rightarrow> bool" where
  "spec_decimal_index s = (s \<noteq> [] \<and> list_all isdigit s \<and> digits_value 0 s < 2 ^ 63)"

text \<open>An index part that reads as an integer in full: white space, one optional sign, at
  least one decimal digit and nothing else.\<close>

definition spec_reads_as_integer :: "string \<Rightarrow> bool" where
  "spec_reads_as_integer s =
     (case dropWhile isspace s of
        [] \<Rightarrow> False
      | c # cs \<Rightarrow>
          if c = CHR ''+'' \<or> c = CHR ''-'' then cs \<noteq> [] \<and> list_all isdigit cs
          else list_all isdigit (c # cs))"

text \<open>
  The redeemer a member addresses and the execution units it carries: the tag is one of the
  six, the index is well formed, and the value has \<open>memory\<close> and \<open>steps\<close> members.
\<close>

definition spec_entry_target ::
  "string \<times> json \<Rightarrow> (cardano_redeemer_tag_t \<times> 64 word \<times> 64 word \<times> 64 word) option" where
  "spec_entry_target entry =
     (case spec_key_parts (fst entry) of
        None \<Rightarrow> None
      | Some (tag_part, index_part) \<Rightarrow>
          (case map_of spec_redeemer_tags tag_part of
             None \<Rightarrow> None
           | Some t \<Rightarrow>
               if spec_decimal_index index_part
               then (case json_object_object_get_ex (snd entry) ''memory'' of
                       None \<Rightarrow> None
                     | Some memory \<Rightarrow>
                         (case json_object_object_get_ex (snd entry) ''steps'' of
                            None \<Rightarrow> None
                          | Some steps \<Rightarrow>
                              Some (t, of_nat (digits_value 0 index_part),
                                    json_object_get_uint64 memory, json_object_get_uint64 steps)))
               else None))"

text \<open>
  The members that are skipped: the key has no colon, the tag is not one of the six, the
  index part does not read as an integer in full, or \<open>memory\<close> or \<open>steps\<close> is missing.
\<close>

definition spec_entry_skipped :: "string \<times> json \<Rightarrow> bool" where
  "spec_entry_skipped entry =
     (case spec_key_parts (fst entry) of
        None \<Rightarrow> True
      | Some (tag_part, index_part) \<Rightarrow>
          tag_part \<notin> set (map fst spec_redeemer_tags) \<or>
          \<not> spec_reads_as_integer index_part \<or>
          json_object_object_get_ex (snd entry) ''memory'' = None \<or>
          json_object_object_get_ex (snd entry) ''steps'' = None)"

text \<open>The execution units of the first redeemer with the given tag and index are set; the
  other redeemers stay as they are.\<close>

fun spec_set_first ::
  "cardano_redeemer_tag_t \<Rightarrow> 64 word \<Rightarrow> 64 word \<Rightarrow> 64 word \<Rightarrow> 'd redeemer list \<Rightarrow>
     'd redeemer list" where
  "spec_set_first t i mem steps [] = []"
| "spec_set_first t i mem steps (r # rs) =
     (if redeemer_tag r = t \<and> redeemer_index r = i
      then r\<lparr>ex_units_memory := mem, ex_units_steps := steps\<rparr> # rs
      else r # spec_set_first t i mem steps rs)"

text \<open>What one member does to the redeemers: it sets the execution units of the redeemer it
  addresses, or it is skipped.\<close>

definition spec_apply_entry :: "'d redeemer list \<Rightarrow> string \<times> json \<Rightarrow> 'd redeemer list" where
  "spec_apply_entry redeemers entry =
     (case spec_entry_target entry of
        None \<Rightarrow> redeemers
      | Some (t, i, mem, steps) \<Rightarrow> spec_set_first t i mem steps redeemers)"

section \<open>Plutus data set\<close>

text \<open>
  \<open>cardano_plutus_data_set_t\<close>: the array of elements, the tag flag and the CBOR cache
  (\<open>None\<close> when the pointer is NULL). The element type is left open: plutus_data.c is not
  among the sources.
\<close>

record 'd plutus_data_set =
  array :: "'d list"
  uses_tags :: bool
  cbor_cache :: "byte list option"

text \<open>
  Modelled from the spec: \<open>cardano_array_get\<close> (collections/array.c is not among the
  sources). The spec names the out-of-bounds read error of indexed reads; the array
  answers an index at or beyond its size with NULL (\<open>None\<close>), which both callers in the
  sources test for, and any other index with the element stored there.
\<close>

definition cardano_array_get :: "'a list \<Rightarrow> nat \<Rightarrow> 'a option" where
  "cardano_array_get arr i = (if i < length arr then Some (arr ! i) else None)"

definition cardano_array_get_size :: "'a list \<Rightarrow> nat" where
  "cardano_array_get_size arr = length arr"

text \<open>
  \<open>cardano_plutus_data_set_get(plutus_data_set, index, element)\<close>. The set pointer is
  \<open>None\<close> when NULL. The output pointer \<open>element\<close> is \<open>None\<close> when NULL and otherwise
  holds the content of the variable it points to, an element pointer that may itself be
  NULL. The result is the error code and the content of that variable afterwards.
\<close>

definition cardano_plutus_data_set_get ::
  "'d plutus_data_set option \<Rightarrow> nat \<Rightarrow> 'd option option \<Rightarrow> cardano_error_t \<times> 'd option option" where
  "cardano_plutus_data_set_get plutus_data_set i element =
     (case plutus_data_set of
        None \<Rightarrow> (CARDANO_ERROR_POINTER_IS_NULL, element)
      | Some s \<Rightarrow>
          (case element of
             None \<Rightarrow> (CARDANO_ERROR_POINTER_IS_NULL, element)
           | Some old \<Rightarrow>
               (case cardano_array_get (array s) i of
                  None \<Rightarrow> (CARDANO_ERROR_OUT_OF_BOUNDS_MEMORY_READ, element)
                | Some object \<Rightarrow> (CARDANO_SUCCESS, Some (Some object)))))"

section \<open>CBOR reader and writer\<close>

text \<open>
  Modelled from the spec: the CBOR reader and writer (cbor_reader.c, cbor_writer.c and
  cbor_validation.c are not among the sources). The reader is a cursor over a byte
  sequence with a stack of the containers it has opened; each typed read consumes one data
  item and returns an error code otherwise. Integers follow the length-prefix rules of
  RFC 8949: the low five bits of the initial byte are the argument when below 24, and 24,
  25, 26 and 27 announce 1, 2, 4 and 8 big-endian bytes. The writer appends to a byte
  sequence and prefers the shortest length prefix. The \<open>last_error\<close> messages are left
  out.
\<close>

fun be_bytes :: "nat \<Rightarrow> nat \<Rightarrow> byte list" where
  "be_bytes 0 n = []"
| "be_bytes (Suc k) n = be_bytes k (n div 256) @ [of_nat (n mod 256)]"

fun be_nat_acc :: "nat \<Rightarrow> byte list \<Rightarrow> nat" where
  "be_nat_acc acc [] = acc"
| "be_nat_acc acc (b # bs) = be_nat_acc (acc * 256 + unat b) bs"

definition be_nat :: "byte list \<Rightarrow> nat" where
  "be_nat bs = be_nat_acc 0 bs"

text \<open>The initial byte of a data item: the major type in its high three bits, the
  additional information in its low five bits.\<close>

definition initial_byte :: "nat \<Rightarrow> nat \<Rightarrow> byte" where
  "initial_byte major info = of_nat (major * 32 + info)"

text \<open>The head of a data item: major type and argument, in the shortest form.\<close>

definition encode_head :: "nat \<Rightarrow> nat \<Rightarrow> byte list" where
  "encode_head major n =
     (if n < 24 then [initial_byte major n]
      else if n < 2 ^ 8 then initial_byte major 24 # be_bytes 1 n
      else if n < 2 ^ 16 then initial_byte major 25 # be_bytes 2 n
      else if n < 2 ^ 32 then initial_byte major 26 # be_bytes 4 n
      else initial_byte major 27 # be_bytes 8 n)"

text \<open>
  Reading a head: the major type, the argument (\<open>None\<close> for the additional information
  31, which marks an indefinite length or the break byte) and the bytes after the head.
  \<open>None\<close> when the bytes run out or the additional information is reserved.
\<close>

definition decode_head :: "byte list \<Rightarrow> (nat \<times> nat option \<times> byte list) option" where
  "decode_head bs =
     (case bs of
        [] \<Rightarrow> None
      | b # rest \<Rightarrow>
          (let major = unat b div 32; info = unat b mod 32
           in if info < 24 then Some (major, Some info, rest)
              else if info = 31 then Some (major, None, rest)
              else if 28 \<le> info then None
              else (let k = 2 ^ (info - 24)
                    in if length rest < k then None
                       else Some (major, Some (be_nat (take k rest)), drop k rest))))"

subsection \<open>Writer\<close>

text \<open>The writer is the byte sequence written so far. \<open>write_start_array\<close> with a negative
  size opens an array of indefinite length.\<close>

type_synonym cbor_writer = "byte list"

definition cardano_cbor_writer_write_uint :: "cbor_writer \<Rightarrow> 64 word \<Rightarrow> cardano_error_t + cbor_writer" where
  "cardano_cbor_writer_write_uint writer v = Inr (writer @ encode_head 0 (unat v))"

definition cardano_cbor_writer_write_signed_int :: "cbor_writer \<Rightarrow> int \<Rightarrow> cardano_error_t + cbor_writer" where
  "cardano_cbor_writer_write_signed_int writer v =
     (if 0 \<le> v then Inr (writer @ encode_head 0 (nat v))
      else Inr (writer @ encode_head 1 (nat (- 1 - v))))"

definition cardano_cbor_writer_write_bytestring :: "cbor_writer \<Rightarrow> byte list \<Rightarrow> cardano_error_t + cbor_writer" where
  "cardano_cbor_writer_write_bytestring writer bs = Inr (writer @ encode_head 2 (length bs) @ bs)"

definition cardano_cbor_writer_write_textstring :: "cbor_writer \<Rightarrow> string \<Rightarrow> cardano_error_t + cbor_writer" where
  "cardano_cbor_writer_write_textstring writer s =
     Inr (writer @ encode_head 3 (length s) @ map of_char s)"

definition cardano_cbor_writer_write_start_array :: "cbor_writer \<Rightarrow> int \<Rightarrow> cardano_error_t + cbor_writer" where
  "cardano_cbor_writer_write_start_array writer n =
     (if n < 0 then Inr (writer @ [0x9F]) else Inr (writer @ encode_head 4 (nat n)))"

definition cardano_cbor_writer_write_tag :: "cbor_writer \<Rightarrow> 64 word \<Rightarrow> cardano_error_t + cbor_writer" where
  "cardano_cbor_writer_write_tag writer t = Inr (writer @ encode_head 6 (unat t))"

definition cardano_cbor_writer_write_null :: "cbor_writer \<Rightarrow> cardano_error_t + cbor_writer" where
  "cardano_cbor_writer_write_null writer = Inr (writer @ [0xF6])"

definition cardano_cbor_writer_write_encoded :: "cbor_writer \<Rightarrow> byte list \<Rightarrow> cardano_error_t + cbor_writer" where
  "cardano_cbor_writer_write_encoded writer bs = Inr (writer @ bs)"

text \<open>A big integer that fits in 64 bits is written as a plain integer; a larger one as
  tag 2 or 3 around the big-endian bytes of its magnitude (of \<open>-1 - v\<close> when negative).\<close>

function magnitude_bytes :: "nat \<Rightarrow> byte list" where
  "magnitude_bytes n = (if n = 0 then [] else magnitude_bytes (n div 256) @ [of_nat (n mod 256)])"
  by pat_completeness auto
termination
  by (relation "measure id") auto

declare magnitude_bytes.simps [simp del]

definition cardano_cbor_writer_write_bigint :: "cbor_writer \<Rightarrow> int \<Rightarrow> cardano_error_t + cbor_writer" where
  "cardano_cbor_writer_write_bigint writer v =
     (if 0 \<le> v \<and> v < 2 ^ 64 then Inr (writer @ encode_head 0 (nat v))
      else if v < 0 \<and> - (2 ^ 64) \<le> v then Inr (writer @ encode_head 1 (nat (- 1 - v)))
      else if 0 \<le> v
      then Inr (writer @ encode_head 6 2 @ encode_head 2 (length (magnitude_bytes (nat v))) @
                  magnitude_bytes (nat v))
      else Inr (writer @ encode_head 6 3 @
                  encode_head 2 (length (magnitude_bytes (nat (- 1 - v)))) @
                  magnitude_bytes (nat (- 1 - v))))"

subsection \<open>Reader\<close>

datatype cardano_cbor_reader_state_t =
    CARDANO_CBOR_READER_STATE_UNDEFINED
  | CARDANO_CBOR_READER_STATE_UNSIGNED_INTEGER
  | CARDANO_CBOR_READER_STATE_NEGATIVE_INTEGER
  | CARDANO_CBOR_READER_STATE_BYTESTRING
  | CARDANO_CBOR_READER_STATE_START_INDEFINITE_LENGTH_BYTESTRING
  | CARDANO_CBOR_READER_STATE_TEXTSTRING
  | CARDANO_CBOR_READER_STATE_START_INDEFINITE_LENGTH_TEXTSTRING
  | CARDANO_CBOR_READER_STATE_START_ARRAY
  | CARDANO_CBOR_READER_STATE_END_ARRAY
  | CARDANO_CBOR_READER_STATE_START_MAP
  | CARDANO_CBOR_READER_STATE_END_MAP
  | CARDANO_CBOR_READER_STATE_TAG
  | CARDANO_CBOR_READER_STATE_SIMPLE_VALUE
  | CARDANO_CBOR_READER_STATE_FLOAT
  | CARDANO_CBOR_READER_STATE_NULL
  | CARDANO_CBOR_READER_STATE_BOOLEAN
  | CARDANO_CBOR_READER_STATE_FINISHED

text \<open>
  An open container: an array or a map, with the number of data items still to read in it
  (\<open>None\<close> when its length is indefinite; a map of \<open>n\<close> entries holds \<open>2 * n\<close> items).
\<close>

datatype cbor_container = Array_Container | Map_Container

datatype cbor_frame = Frame cbor_container "nat option"

record cbor_reader =
  buffer :: "byte list"
  frames :: "cbor_frame list"

definition cardano_cbor_reader_new :: "byte list \<Rightarrow> cbor_reader" where
  "cardano_cbor_reader_new bs = \<lparr>buffer = bs, frames = []\<rparr>"

text \<open>\<open>cardano_cbor_reader_clone\<close>: an independent cursor at the same offset.\<close>

definition cardano_cbor_reader_clone :: "cbor_reader \<Rightarrow> cardano_error_t + cbor_reader" where
  "cardano_cbor_reader_clone reader = Inr reader"

text \<open>One data item of the innermost open container has been read.\<close>

fun item_read :: "cbor_frame list \<Rightarrow> cbor_frame list" where
  "item_read (Frame c (Some (Suc n)) # fs) = Frame c (Some n) # fs"
| "item_read fs = fs"

text \<open>The innermost open container still has items to read, or none is open.\<close>

definition items_left :: "cbor_frame list \<Rightarrow> bool" where
  "items_left fs = (case fs of Frame c (Some 0) # rest \<Rightarrow> False | _ \<Rightarrow> True)"

definition advance :: "cbor_reader \<Rightarrow> byte list \<Rightarrow> cbor_reader" where
  "advance reader rest = \<lparr>buffer = rest, frames = item_read (frames reader)\<rparr>"

definition end_state :: "cbor_container \<Rightarrow> cardano_cbor_reader_state_t" where
  "end_state c =
     (case c of Array_Container \<Rightarrow> CARDANO_CBOR_READER_STATE_END_ARRAY
              | Map_Container \<Rightarrow> CARDANO_CBOR_READER_STATE_END_MAP)"

text \<open>The state that the initial byte of the next data item announces; a break byte ends
  the innermost container when that one is of indefinite length.\<close>

definition initial_byte_state ::
  "byte \<Rightarrow> cbor_frame list \<Rightarrow> cardano_error_t + cardano_cbor_reader_state_t" where
  "initial_byte_state b fs =
     (let major = unat b div 32; info = unat b mod 32
      in if major = 0 then Inr CARDANO_CBOR_READER_STATE_UNSIGNED_INTEGER
         else if major = 1 then Inr CARDANO_CBOR_READER_STATE_NEGATIVE_INTEGER
         else if major = 2 then
           Inr (if info = 31 then CARDANO_CBOR_READER_STATE_START_INDEFINITE_LENGTH_BYTESTRING
                else CARDANO_CBOR_READER_STATE_BYTESTRING)
         else if major = 3 then
           Inr (if info = 31 then CARDANO_CBOR_READER_STATE_START_INDEFINITE_LENGTH_TEXTSTRING
                else CARDANO_CBOR_READER_STATE_TEXTSTRING)
         else if major = 4 then Inr CARDANO_CBOR_READER_STATE_START_ARRAY
         else if major = 5 then Inr CARDANO_CBOR_READER_STATE_START_MAP
         else if major = 6 then Inr CARDANO_CBOR_READER_STATE_TAG
         else if info = 31 then
           (case fs of
              Frame c None # rest \<Rightarrow> Inr (end_state c)
            | _ \<Rightarrow> Inl CARDANO_ERROR_DECODING)
         else if info = 20 \<or> info = 21 then Inr CARDANO_CBOR_READER_STATE_BOOLEAN
         else if info = 22 then Inr CARDANO_CBOR_READER_STATE_NULL
         else if info = 23 then Inr CARDANO_CBOR_READER_STATE_UNDEFINED
         else if info = 25 \<or> info = 26 \<or> info = 27 then Inr CARDANO_CBOR_READER_STATE_FLOAT
         else Inr CARDANO_CBOR_READER_STATE_SIMPLE_VALUE)"

definition cardano_cbor_reader_peek_state ::
  "cbor_reader \<Rightarrow> cardano_error_t + cardano_cbor_reader_state_t" where
  "cardano_cbor_reader_peek_state reader =
     (case frames reader of
        Frame c (Some 0) # fs \<Rightarrow> Inr (end_state c)
      | fs \<Rightarrow>
          (case buffer reader of
             [] \<Rightarrow> if fs = [] then Inr CARDANO_CBOR_READER_STATE_FINISHED
                   else Inl CARDANO_ERROR_DECODING
           | b # rest \<Rightarrow> initial_byte_state b fs))"

text \<open>A typed read first looks at the state; a state other than the expected one is an
  unexpected-type error.\<close>

definition expect_state ::
  "cbor_reader \<Rightarrow> cardano_cbor_reader_state_t list \<Rightarrow> cardano_error_t + unit" where
  "expect_state reader expected =
     (case cardano_cbor_reader_peek_state reader of
        Inl error \<Rightarrow> Inl error
      | Inr state \<Rightarrow>
          if state \<in> set expected then Inr () else Inl CARDANO_ERROR_UNEXPECTED_CBOR_TYPE)"

definition cardano_cbor_reader_read_uint :: "cbor_reader \<Rightarrow> cardano_error_t + 64 word \<times> cbor_reader" where
  "cardano_cbor_reader_read_uint reader =
     (case expect_state reader [CARDANO_CBOR_READER_STATE_UNSIGNED_INTEGER] of
        Inl error \<Rightarrow> Inl error
      | Inr u \<Rightarrow>
          (case decode_head (buffer reader) of
             Some (major, Some n, rest) \<Rightarrow> Inr (of_nat n, advance reader rest)
           | _ \<Rightarrow> Inl CARDANO_ERROR_DECODING))"

text \<open>\<open>read_int\<close> reads an integer of either sign that fits \<open>int64_t\<close>.\<close>

definition cardano_cbor_reader_read_int :: "cbor_reader \<Rightarrow> cardano_error_t + int \<times> cbor_reader" where
  "cardano_cbor_reader_read_int reader =
     (case expect_state reader
             [CARDANO_CBOR_READER_STATE_UNSIGNED_INTEGER, CARDANO_CBOR_READER_STATE_NEGATIVE_INTEGER] of
        Inl error \<Rightarrow> Inl error
      | Inr u \<Rightarrow>
          (case decode_head (buffer reader) of
             Some (major, Some n, rest) \<Rightarrow>
               if 2 ^ 63 \<le> n then Inl CARDANO_ERROR_DECODING
               else Inr (if major = 0 then int n else - 1 - int n, advance reader rest)
           | _ \<Rightarrow> Inl CARDANO_ERROR_DECODING))"

definition cardano_cbor_reader_peek_tag :: "cbor_reader \<Rightarrow> cardano_error_t + 64 word" where
  "cardano_cbor_reader_peek_tag reader =
     (case expect_state reader [CARDANO_CBOR_READER_STATE_TAG] of
        Inl error \<Rightarrow> Inl error
      | Inr u \<Rightarrow>
          (case decode_head (buffer reader) of
             Some (major, Some t, rest) \<Rightarrow> Inr (of_nat t)
           | _ \<Rightarrow> Inl CARDANO_ERROR_DECODING))"

text \<open>A tag is not a data item by itself: the item that follows it is the one counted.\<close>

definition cardano_cbor_reader_read_tag :: "cbor_reader \<Rightarrow> cardano_error_t + 64 word \<times> cbor_reader" where
  "cardano_cbor_reader_read_tag reader =
     (case expect_state reader [CARDANO_CBOR_READER_STATE_TAG] of
        Inl error \<Rightarrow> Inl error
      | Inr u \<Rightarrow>
          (case decode_head (buffer reader) of
             Some (major, Some t, rest) \<Rightarrow> Inr (of_nat t, reader\<lparr>buffer := rest\<rparr>)
           | _ \<Rightarrow> Inl CARDANO_ERROR_DECODING))"

definition cardano_cbor_reader_read_null :: "cbor_reader \<Rightarrow> cardano_error_t + cbor_reader" where
  "cardano_cbor_reader_read_null reader =
     (case expect_state reader [CARDANO_CBOR_READER_STATE_NULL] of
        Inl error \<Rightarrow> Inl error
      | Inr u \<Rightarrow> Inr (advance reader (tl (buffer reader))))"

text \<open>
  The chunks of a string of indefinite length are strings of definite length of the same
  major type; they are concatenated until the break byte. The result is the content and
  the bytes after the break.
\<close>

lemma decode_head_shorter:
  assumes "decode_head bs = Some (major, arg, rest)"
  shows "length rest < length bs"
proof (cases bs)
  case Nil
  with assms show ?thesis by (simp add: decode_head_def)
next
  case (Cons b bs')
  with assms have "rest = bs' \<or> (\<exists>k. rest = drop k bs')"
    by (auto simp: decode_head_def Let_def split: if_splits)
  then show ?thesis by (auto simp: Cons)
qed

function read_chunks :: "nat \<Rightarrow> byte list \<Rightarrow> byte list \<Rightarrow> (byte list \<times> byte list) option" where
  "read_chunks major acc bs =
     (case decode_head bs of
        None \<Rightarrow> None
      | Some (m, arg, rest) \<Rightarrow>
          (case arg of
             None \<Rightarrow> if m = 7 then Some (acc, rest) else None
           | Some n \<Rightarrow>
               if m = major \<and> n \<le> length rest
               then read_chunks major (acc @ take n rest) (drop n rest)
               else None))"
  by pat_completeness auto
termination
  by (relation "measure (\<lambda>(major, acc, bs). length bs)") (auto dest: decode_head_shorter)

definition read_string :: "nat \<Rightarrow> cbor_reader \<Rightarrow> cardano_error_t + byte list \<times> cbor_reader" where
  "read_string major reader =
     (case decode_head (buffer reader) of
        Some (m, Some n, rest) \<Rightarrow>
          if length rest < n then Inl CARDANO_ERROR_DECODING
          else Inr (take n rest, advance reader (drop n rest))
      | Some (m, None, rest) \<Rightarrow>
          (case read_chunks major [] rest of
             None \<Rightarrow> Inl CARDANO_ERROR_DECODING
           | Some (content, rest') \<Rightarrow> Inr (content, advance reader rest'))
      | None \<Rightarrow> Inl CARDANO_ERROR_DECODING)"

definition cardano_cbor_reader_read_bytestring ::
  "cbor_reader \<Rightarrow> cardano_error_t + byte list \<times> cbor_reader" where
  "cardano_cbor_reader_read_bytestring reader =
     (case expect_state reader
             [CARDANO_CBOR_READER_STATE_BYTESTRING,
              CARDANO_CBOR_READER_STATE_START_INDEFINITE_LENGTH_BYTESTRING] of
        Inl error \<Rightarrow> Inl error
      | Inr u \<Rightarrow> read_string 2 reader)"

definition cardano_cbor_reader_read_textstring ::
  "cbor_reader \<Rightarrow> cardano_error_t + string \<times> cbor_reader" where
  "cardano_cbor_reader_read_textstring reader =
     (case expect_state reader
             [CARDANO_CBOR_READER_STATE_TEXTSTRING,
              CARDANO_CBOR_READER_STATE_START_INDEFINITE_LENGTH_TEXTSTRING] of
        Inl error \<Rightarrow> Inl error
      | Inr u \<Rightarrow>
          (case read_string 3 reader of
             Inl error \<Rightarrow> Inl error
           | Inr (content, reader') \<Rightarrow> Inr (map (\<lambda>b. char_of (unat b)) content, reader')))"

text \<open>\<open>read_bigint\<close>: a plain integer, or tag 2 or 3 around the big-endian bytes of the
  magnitude.\<close>

definition cardano_cbor_reader_read_bigint :: "cbor_reader \<Rightarrow> cardano_error_t + int \<times> cbor_reader" where
  "cardano_cbor_reader_read_bigint reader =
     (case cardano_cbor_reader_peek_state reader of
        Inl error \<Rightarrow> Inl error
      | Inr state \<Rightarrow>
          if state = CARDANO_CBOR_READER_STATE_TAG then
            (case cardano_cbor_reader_read_tag reader of
               Inl error \<Rightarrow> Inl error
             | Inr (t, reader') \<Rightarrow>
                 if t = 2 \<or> t = 3 then
                   (case cardano_cbor_reader_read_bytestring reader' of
                      Inl error \<Rightarrow> Inl error
                    | Inr (bs, reader'') \<Rightarrow>
                        Inr (if t = 2 then int (be_nat bs) else - 1 - int (be_nat bs), reader''))
                 else Inl CARDANO_ERROR_DECODING)
          else
            (case decode_head (buffer reader) of
               Some (major, Some n, rest) \<Rightarrow>
                 if major = 0 then Inr (int n, advance reader rest)
                 else if major = 1 then Inr (- 1 - int n, advance reader rest)
                 else Inl CARDANO_ERROR_UNEXPECTED_CBOR_TYPE
             | _ \<Rightarrow> Inl CARDANO_ERROR_DECODING))"

text \<open>\<open>read_start_array\<close> opens an array and returns its length, \<open>-1\<close> when indefinite.\<close>

definition cardano_cbor_reader_read_start_array :: "cbor_reader \<Rightarrow> cardano_error_t + int \<times> cbor_reader" where
  "cardano_cbor_reader_read_start_array reader =
     (case expect_state reader [CARDANO_CBOR_READER_STATE_START_ARRAY] of
        Inl error \<Rightarrow> Inl error
      | Inr u \<Rightarrow>
          (case decode_head (buffer reader) of
             Some (major, arg, rest) \<Rightarrow>
               Inr (case arg of None \<Rightarrow> - 1 | Some n \<Rightarrow> int n,
                    \<lparr>buffer = rest, frames = Frame Array_Container arg # frames reader\<rparr>)
           | None \<Rightarrow> Inl CARDANO_ERROR_DECODING))"

text \<open>\<open>read_end_array\<close> closes the innermost array once all its items are read (at its break
  byte when indefinite); the array then counts as one item of the container around it.\<close>

definition cardano_cbor_reader_read_end_array :: "cbor_reader \<Rightarrow> cardano_error_t + cbor_reader" where
  "cardano_cbor_reader_read_end_array reader =
     (case expect_state reader [CARDANO_CBOR_READER_STATE_END_ARRAY] of
        Inl error \<Rightarrow> Inl error
      | Inr u \<Rightarrow>
          (case frames reader of
             Frame c (Some n) # fs \<Rightarrow> Inr \<lparr>buffer = buffer reader, frames = item_read fs\<rparr>
           | Frame c None # fs \<Rightarrow> Inr \<lparr>buffer = tl (buffer reader), frames = item_read fs\<rparr>
           | [] \<Rightarrow> Inl CARDANO_ERROR_DECODING))"

text \<open>
  \<open>skip_value\<close>, on a stack of what is still to skip: a number of data items, the items up
  to a break byte, or the chunks of a string up to a break byte. One step either pops an
  exhausted count off the stack or reads one head (and the content of a string of definite
  length); it gives the stack and the input to go on with, or \<open>None\<close> on malformed input.
  Every step consumes input or shortens the stack.
\<close>

datatype skip_frame = Remaining nat | Until_Break | Chunks nat

fun item_skipped :: "skip_frame list \<Rightarrow> skip_frame list" where
  "item_skipped (Remaining (Suc n) # st) = Remaining n # st"
| "item_skipped st = st"

definition skip_step ::
  "skip_frame \<Rightarrow> skip_frame list \<Rightarrow> byte list \<Rightarrow> (skip_frame list \<times> byte list) option" where
  "skip_step f st bs =
     (if f = Remaining 0 then Some (st, bs)
      else (case decode_head bs of
              None \<Rightarrow> None
            | Some (major, arg, rest) \<Rightarrow>
                (case f of
                   Chunks m \<Rightarrow>
                     (case arg of
                        None \<Rightarrow> if major = 7 then Some (st, rest) else None
                      | Some n \<Rightarrow>
                          if major = m \<and> n \<le> length rest then Some (f # st, drop n rest)
                          else None)
                 | _ \<Rightarrow>
                     (case arg of
                        None \<Rightarrow>
                          if major = 7 then (if f = Until_Break then Some (st, rest) else None)
                          else if major = 2 \<or> major = 3
                          then Some (Chunks major # item_skipped (f # st), rest)
                          else if major = 4 \<or> major = 5
                          then Some (Until_Break # item_skipped (f # st), rest)
                          else None
                      | Some n \<Rightarrow>
                          if major = 2 \<or> major = 3
                          then (if n \<le> length rest then Some (item_skipped (f # st), drop n rest)
                                else None)
                          else if major = 4 then Some (Remaining n # item_skipped (f # st), rest)
                          else if major = 5
                          then Some (Remaining (2 * n) # item_skipped (f # st), rest)
                          else if major = 6 then Some (f # st, rest)
                          else Some (item_skipped (f # st), rest)))))"

lemma skip_step_smaller:
  assumes "skip_step f st bs = Some (st', bs')"
  shows "length bs' < length bs \<or> (bs' = bs \<and> st' = st)"
proof (cases "f = Remaining 0")
  case True
  with assms show ?thesis by (simp add: skip_step_def)
next
  case False
  with assms obtain major arg rest where d: "decode_head bs = Some (major, arg, rest)"
    by (auto simp: skip_step_def split: option.splits)
  then have "length rest < length bs" by (rule decode_head_shorter)
  moreover from assms False d have "bs' = rest \<or> (\<exists>n. bs' = drop n rest)"
    by (auto simp: skip_step_def split: skip_frame.splits option.splits if_splits)
  ultimately show ?thesis by auto
qed

function skip_items :: "skip_frame list \<Rightarrow> byte list \<Rightarrow> byte list option" where
  "skip_items [] bs = Some bs"
| "skip_items (f # st) bs =
     (case skip_step f st bs of
        None \<Rightarrow> None
      | Some (st', bs') \<Rightarrow> skip_items st' bs')"
  by pat_completeness auto
termination
  by (relation "measures [\<lambda>(st, bs). length bs, \<lambda>(st, bs). length st]")
    (auto dest: skip_step_smaller)

text \<open>\<open>read_encoded_value\<close> returns the raw bytes of the next complete data item.\<close>

definition cardano_cbor_reader_read_encoded_value ::
  "cbor_reader \<Rightarrow> cardano_error_t + byte list \<times> cbor_reader" where
  "cardano_cbor_reader_read_encoded_value reader =
     (case cardano_cbor_reader_peek_state reader of
        Inl error \<Rightarrow> Inl error
      | Inr state \<Rightarrow>
          if state \<in> set [CARDANO_CBOR_READER_STATE_END_ARRAY, CARDANO_CBOR_READER_STATE_END_MAP,
                           CARDANO_CBOR_READER_STATE_FINISHED]
          then Inl CARDANO_ERROR_DECODING
          else (case skip_items [Remaining 1] (buffer reader) of
                  None \<Rightarrow> Inl CARDANO_ERROR_DECODING
                | Some rest \<Rightarrow>
                    Inr (take (length (buffer reader) - length rest) (buffer reader),
                         advance reader rest)))"

subsection \<open>Validators\<close>

definition cardano_cbor_validate_array_of_n_elements :: "cbor_reader \<Rightarrow> int \<Rightarrow> cardano_error_t + cbor_reader" where
  "cardano_cbor_validate_array_of_n_elements reader n =
     (case cardano_cbor_reader_read_start_array reader of
        Inl error \<Rightarrow> Inl error
      | Inr (len, reader') \<Rightarrow>
          if len \<noteq> n then Inl CARDANO_ERROR_INVALID_CBOR_ARRAY_SIZE else Inr reader')"

definition cardano_cbor_validate_enum_value ::
  "cbor_reader \<Rightarrow> 64 word \<Rightarrow> cardano_error_t + 64 word \<times> cbor_reader" where
  "cardano_cbor_validate_enum_value reader expected =
     (case cardano_cbor_reader_read_uint reader of
        Inl error \<Rightarrow> Inl error
      | Inr (v, reader') \<Rightarrow>
          if v \<noteq> expected then Inl CARDANO_ERROR_INVALID_CBOR_VALUE else Inr (v, reader'))"

definition cardano_cbor_validate_end_array :: "cbor_reader \<Rightarrow> cardano_error_t + cbor_reader" where
  "cardano_cbor_validate_end_array reader = cardano_cbor_reader_read_end_array reader"

definition cardano_cbor_validate_tag :: "cbor_reader \<Rightarrow> 64 word \<Rightarrow> cardano_error_t + cbor_reader" where
  "cardano_cbor_validate_tag reader expected =
     (case cardano_cbor_reader_read_tag reader of
        Inl error \<Rightarrow> Inl error
      | Inr (t, reader') \<Rightarrow>
          if t \<noteq> expected then Inl CARDANO_ERROR_INVALID_CBOR_VALUE else Inr reader')"

text \<open>Modelled from the spec: tag 258 denotes a finite set (the constant
  \<open>CARDANO_CBOR_TAG_SET\<close> is not in the \<open>cbor_tag.h\<close> of the sources).\<close>

definition CARDANO_CBOR_TAG_SET :: "64 word" where
  "CARDANO_CBOR_TAG_SET = 258"

section \<open>Metadatum and CBOR\<close>

text \<open>
  Modelled from the spec: the big integer operations (bigint.c is not among the sources).
  A big integer is an arbitrary-precision signed integer; its bit length is the number of
  bits of its magnitude, its signum its sign, and the conversion to \<open>uint64_t\<close> keeps the
  low 64 bits.
\<close>

function bit_length_nat :: "nat \<Rightarrow> nat" where
  "bit_length_nat n = (if n = 0 then 0 else Suc (bit_length_nat (n div 2)))"
  by pat_completeness auto
termination
  by (relation "measure id") auto

declare bit_length_nat.simps [simp del]

definition cardano_bigint_bit_length :: "int \<Rightarrow> nat" where
  "cardano_bigint_bit_length i = bit_length_nat (nat \<bar>i\<bar>)"

definition cardano_bigint_signum :: "int \<Rightarrow> int" where
  "cardano_bigint_signum i = sgn i"

definition cardano_bigint_to_unsigned_int :: "int \<Rightarrow> 64 word" where
  "cardano_bigint_to_unsigned_int i = word_of_int i"

text \<open>
  \<open>cardano_metadatum_to_cbor\<close>. The encoders of a metadatum map and of a metadatum list
  (metadatum_map.c and metadatum_list.c, not among the sources) are parameters. The
  metadatum and writer pointers are taken to be valid.
\<close>

definition cardano_metadatum_to_cbor ::
  "((metadatum \<times> metadatum) list \<Rightarrow> cbor_writer \<Rightarrow> cardano_error_t + cbor_writer) \<Rightarrow>
   (metadatum list \<Rightarrow> cbor_writer \<Rightarrow> cardano_error_t + cbor_writer) \<Rightarrow>
   metadatum \<Rightarrow> cbor_writer \<Rightarrow> cardano_error_t + cbor_writer" where
  "cardano_metadatum_to_cbor cardano_metadatum_map_to_cbor cardano_metadatum_list_to_cbor
       metadatum writer =
     (case metadatum of
        Metadatum_Map m \<Rightarrow> cardano_metadatum_map_to_cbor m writer
      | Metadatum_List l \<Rightarrow> cardano_metadatum_list_to_cbor l writer
      | Metadatum_Integer i \<Rightarrow>
          (let bit_length = cardano_bigint_bit_length i
           in if cardano_bigint_signum i < 0 \<and> bit_length \<le> 64
              then cardano_cbor_writer_write_signed_int writer (cardano_bigint_to_int i)
              else if bit_length \<le> 64
              then cardano_cbor_writer_write_uint writer (cardano_bigint_to_unsigned_int i)
              else cardano_cbor_writer_write_bigint writer i)
      | Metadatum_Bytes bytes \<Rightarrow>
          if 64 < length bytes then Inl CARDANO_ERROR_INVALID_METADATUM_BOUNDED_BYTES_SIZE
          else cardano_cbor_writer_write_bytestring writer bytes
      | Metadatum_Text text \<Rightarrow>
          if 64 < length text then Inl CARDANO_ERROR_INVALID_METADATUM_TEXT_STRING_SIZE
          else cardano_cbor_writer_write_textstring writer text)"

text \<open>
  \<open>cardano_metadatum_from_cbor\<close>. The decoders of a metadatum list and of a metadatum map
  are parameters, as the encoders are. The reader and output pointers are taken to be
  valid.
\<close>

definition cardano_metadatum_from_cbor ::
  "(cbor_reader \<Rightarrow> cardano_error_t + metadatum list \<times> cbor_reader) \<Rightarrow>
   (cbor_reader \<Rightarrow> cardano_error_t + (metadatum \<times> metadatum) list \<times> cbor_reader) \<Rightarrow>
   cbor_reader \<Rightarrow> cardano_error_t + metadatum \<times> cbor_reader" where
  "cardano_metadatum_from_cbor cardano_metadatum_list_from_cbor cardano_metadatum_map_from_cbor
       reader =
     (case cardano_cbor_reader_peek_state reader of
        Inl error \<Rightarrow> Inl error
      | Inr state \<Rightarrow>
          if state = CARDANO_CBOR_READER_STATE_TAG then
            (case cardano_cbor_reader_peek_tag reader of
               Inl error \<Rightarrow> Inl error
             | Inr t \<Rightarrow>
                 if t = 2 \<or> t = 3 then
                   (case cardano_cbor_reader_read_bigint reader of
                      Inl error \<Rightarrow> Inl error
                    | Inr (i, reader') \<Rightarrow> Inr (Metadatum_Integer i, reader'))
                 else Inl CARDANO_ERROR_DECODING)
          else if state = CARDANO_CBOR_READER_STATE_UNSIGNED_INTEGER then
            (case cardano_cbor_reader_read_uint reader of
               Inl error \<Rightarrow> Inl error
             | Inr (i, reader') \<Rightarrow> Inr (Metadatum_Integer (uint i), reader'))
          else if state = CARDANO_CBOR_READER_STATE_NEGATIVE_INTEGER then
            (case cardano_cbor_reader_read_int reader of
               Inl error \<Rightarrow> Inl error
             | Inr (i, reader') \<Rightarrow> Inr (Metadatum_Integer i, reader'))
          else if state = CARDANO_CBOR_READER_STATE_START_INDEFINITE_LENGTH_BYTESTRING
                  \<or> state = CARDANO_CBOR_READER_STATE_BYTESTRING then
            (case cardano_cbor_reader_read_bytestring reader of
               Inl error \<Rightarrow> Inl error
             | Inr (bytes, reader') \<Rightarrow> Inr (Metadatum_Bytes bytes, reader'))
          else if state = CARDANO_CBOR_READER_STATE_START_INDEFINITE_LENGTH_TEXTSTRING
                  \<or> state = CARDANO_CBOR_READER_STATE_TEXTSTRING then
            (case cardano_cbor_reader_read_textstring reader of
               Inl error \<Rightarrow> Inl error
             | Inr (bytes, reader') \<Rightarrow> Inr (Metadatum_Text bytes, reader'))
          else if state = CARDANO_CBOR_READER_STATE_START_ARRAY then
            (case cardano_metadatum_list_from_cbor reader of
               Inl error \<Rightarrow> Inl error
             | Inr (list, reader') \<Rightarrow> Inr (Metadatum_List list, reader'))
          else if state = CARDANO_CBOR_READER_STATE_START_MAP then
            (case cardano_metadatum_map_from_cbor reader of
               Inl error \<Rightarrow> Inl error
             | Inr (m, reader') \<Rightarrow> Inr (Metadatum_Map m, reader'))
          else Inl CARDANO_ERROR_DECODING)"

section \<open>Plutus data set and CBOR\<close>

definition cardano_plutus_data_set_new :: "'d plutus_data_set" where
  "cardano_plutus_data_set_new = \<lparr>array = [], uses_tags = True, cbor_cache = None\<rparr>"

text \<open>
  The loop of \<open>cardano_plutus_data_set_from_cbor\<close> that reads the elements up to the end of
  the array. The element decoder \<open>cardano_plutus_data_from_cbor\<close> (plutus_data.c, not among
  the sources) is a parameter, so nothing says that an iteration consumes input: the loop
  is given the number of iterations it may make, and \<open>None\<close> is the run that needs more.
\<close>

fun read_elements ::
  "nat \<Rightarrow> (cbor_reader \<Rightarrow> cardano_error_t + 'd \<times> cbor_reader) \<Rightarrow> 'd list \<Rightarrow> cbor_reader \<Rightarrow>
     (cardano_error_t + 'd list \<times> cbor_reader) option" where
  "read_elements 0 cardano_plutus_data_from_cbor arr reader = None"
| "read_elements (Suc fuel) cardano_plutus_data_from_cbor arr reader =
     (case cardano_cbor_reader_peek_state reader of
        Inl error \<Rightarrow> Some (Inl error)
      | Inr state \<Rightarrow>
          if state = CARDANO_CBOR_READER_STATE_END_ARRAY then Some (Inr (arr, reader))
          else (case cardano_plutus_data_from_cbor reader of
                  Inl error \<Rightarrow> Some (Inl error)
                | Inr (element, reader') \<Rightarrow>
                    read_elements fuel cardano_plutus_data_from_cbor (arr @ [element]) reader'))"

text \<open>
  \<open>cardano_plutus_data_set_from_cbor\<close>: the set and the reader after it, an error code, or
  \<open>None\<close> when the element loop needs more iterations than it was given. The reader and
  output pointers are taken to be valid.
\<close>

definition cardano_plutus_data_set_from_cbor ::
  "nat \<Rightarrow> (cbor_reader \<Rightarrow> cardano_error_t + 'd \<times> cbor_reader) \<Rightarrow> cbor_reader \<Rightarrow>
     (cardano_error_t + 'd plutus_data_set \<times> cbor_reader) option" where
  "cardano_plutus_data_set_from_cbor fuel cardano_plutus_data_from_cbor reader =
     (let list = cardano_plutus_data_set_new
      in case cardano_cbor_reader_clone reader of
           Inl copy_result \<Rightarrow> Some (Inl copy_result)
         | Inr reader_copy \<Rightarrow>
             (case cardano_cbor_reader_read_encoded_value reader_copy of
                Inl copy_result \<Rightarrow> Some (Inl copy_result)
              | Inr (encoded, reader_copy') \<Rightarrow>
                  (let list = list\<lparr>cbor_cache := Some encoded\<rparr>
                   in case cardano_cbor_reader_peek_state reader of
                        Inl error \<Rightarrow> Some (Inl CARDANO_ERROR_DECODING)
                      | Inr state \<Rightarrow>
                          (let list = list\<lparr>uses_tags := (state = CARDANO_CBOR_READER_STATE_TAG)\<rparr>
                           in case (if state = CARDANO_CBOR_READER_STATE_TAG
                                    then cardano_cbor_validate_tag reader CARDANO_CBOR_TAG_SET
                                    else Inr reader) of
                                Inl read_tag_result \<Rightarrow> Some (Inl read_tag_result)
                              | Inr reader1 \<Rightarrow>
                                  (case cardano_cbor_reader_read_start_array reader1 of
                                     Inl error \<Rightarrow> Some (Inl error)
                                   | Inr (len, reader2) \<Rightarrow>
                                       (case read_elements fuel cardano_plutus_data_from_cbor
                                               (array list) reader2 of
                                          None \<Rightarrow> None
                                        | Some (Inl error) \<Rightarrow> Some (Inl error)
                                        | Some (Inr (arr, reader3)) \<Rightarrow>
                                            (case cardano_cbor_validate_end_array reader3 of
                                               Inl error \<Rightarrow> Some (Inl error)
                                             | Inr reader4 \<Rightarrow>
                                                 Some (Inr (list\<lparr>array := arr\<rparr>, reader4)))))))))"

text \<open>The loop of \<open>cardano_plutus_data_set_to_cbor\<close> over the elements, with the element
  encoder \<open>cardano_plutus_data_to_cbor\<close> as a parameter.\<close>

fun write_elements ::
  "('d \<Rightarrow> cbor_writer \<Rightarrow> cardano_error_t + cbor_writer) \<Rightarrow> 'd list \<Rightarrow> cbor_writer \<Rightarrow>
     cardano_error_t + cbor_writer" where
  "write_elements cardano_plutus_data_to_cbor [] writer = Inr writer"
| "write_elements cardano_plutus_data_to_cbor (element # rest) writer =
     (case cardano_plutus_data_to_cbor element writer of
        Inl error \<Rightarrow> Inl error
      | Inr writer' \<Rightarrow> write_elements cardano_plutus_data_to_cbor rest writer')"

text \<open>\<open>cardano_plutus_data_set_to_cbor\<close>, with valid set and writer pointers.\<close>

definition cardano_plutus_data_set_to_cbor ::
  "('d \<Rightarrow> cbor_writer \<Rightarrow> cardano_error_t + cbor_writer) \<Rightarrow> 'd plutus_data_set \<Rightarrow> cbor_writer \<Rightarrow>
     cardano_error_t + cbor_writer" where
  "cardano_plutus_data_set_to_cbor cardano_plutus_data_to_cbor plutus_data_set writer =
     (case cbor_cache plutus_data_set of
        Some cache \<Rightarrow> cardano_cbor_writer_write_encoded writer cache
      | None \<Rightarrow>
          (case (if uses_tags plutus_data_set
                 then cardano_cbor_writer_write_tag writer CARDANO_CBOR_TAG_SET
                 else Inr writer) of
             Inl error \<Rightarrow> Inl error
           | Inr writer1 \<Rightarrow>
               (case cardano_cbor_writer_write_start_array writer1
                       (int (cardano_array_get_size (array plutus_data_set))) of
                  Inl error \<Rightarrow> Inl error
                | Inr writer2 \<Rightarrow>
                    write_elements cardano_plutus_data_to_cbor (array plutus_data_set) writer2)))"




section \<open>Register DRep certificate\<close>

text \<open>
  Modelled from the spec: credentials and anchors with their CBOR forms (credential.c and
  anchor.c are not among the sources). A credential is a key hash or a script hash of 28
  bytes, encoded as the array \<open>[type, hash]\<close> with type 0 or 1; an anchor is a URL and a
  hash of 32 bytes, encoded as the array \<open>[url, hash]\<close> (scenarios S1 and S2 of the spec).
\<close>

datatype cardano_credential_type_t =
    CARDANO_CREDENTIAL_TYPE_KEY_HASH
  | CARDANO_CREDENTIAL_TYPE_SCRIPT_HASH

record cardano_credential =
  credential_type :: cardano_credential_type_t
  credential_hash :: "byte list"

record cardano_anchor =
  anchor_url :: string
  anchor_hash :: "byte list"

definition cardano_credential_to_cbor :: "cardano_credential \<Rightarrow> cbor_writer \<Rightarrow> cardano_error_t + cbor_writer" where
  "cardano_credential_to_cbor c writer =
     (case cardano_cbor_writer_write_start_array writer 2 of
        Inl error \<Rightarrow> Inl error
      | Inr w1 \<Rightarrow>
          (case cardano_cbor_writer_write_uint w1
                  (case credential_type c of
                     CARDANO_CREDENTIAL_TYPE_KEY_HASH \<Rightarrow> 0
                   | CARDANO_CREDENTIAL_TYPE_SCRIPT_HASH \<Rightarrow> 1) of
             Inl error \<Rightarrow> Inl error
           | Inr w2 \<Rightarrow> cardano_cbor_writer_write_bytestring w2 (credential_hash c)))"

definition cardano_credential_from_cbor :: "cbor_reader \<Rightarrow> cardano_error_t + cardano_credential \<times> cbor_reader" where
  "cardano_credential_from_cbor reader =
     (case cardano_cbor_validate_array_of_n_elements reader 2 of
        Inl error \<Rightarrow> Inl error
      | Inr r1 \<Rightarrow>
          (case cardano_cbor_reader_read_uint r1 of
             Inl error \<Rightarrow> Inl error
           | Inr (t, r2) \<Rightarrow>
               if t \<noteq> 0 \<and> t \<noteq> 1 then Inl CARDANO_ERROR_INVALID_CBOR_VALUE
               else (case cardano_cbor_reader_read_bytestring r2 of
                       Inl error \<Rightarrow> Inl error
                     | Inr (h, r3) \<Rightarrow>
                         if length h \<noteq> 28 then Inl CARDANO_ERROR_INVALID_BLAKE2B_HASH_SIZE
                         else (case cardano_cbor_validate_end_array r3 of
                                 Inl error \<Rightarrow> Inl error
                               | Inr r4 \<Rightarrow>
                                   Inr (\<lparr>credential_type =
                                           (if t = 0 then CARDANO_CREDENTIAL_TYPE_KEY_HASH
                                            else CARDANO_CREDENTIAL_TYPE_SCRIPT_HASH),
                                         credential_hash = h\<rparr>, r4)))))"

definition cardano_anchor_to_cbor :: "cardano_anchor \<Rightarrow> cbor_writer \<Rightarrow> cardano_error_t + cbor_writer" where
  "cardano_anchor_to_cbor a writer =
     (case cardano_cbor_writer_write_start_array writer 2 of
        Inl error \<Rightarrow> Inl error
      | Inr w1 \<Rightarrow>
          (case cardano_cbor_writer_write_textstring w1 (anchor_url a) of
             Inl error \<Rightarrow> Inl error
           | Inr w2 \<Rightarrow> cardano_cbor_writer_write_bytestring w2 (anchor_hash a)))"

definition cardano_anchor_from_cbor :: "cbor_reader \<Rightarrow> cardano_error_t + cardano_anchor \<times> cbor_reader" where
  "cardano_anchor_from_cbor reader =
     (case cardano_cbor_validate_array_of_n_elements reader 2 of
        Inl error \<Rightarrow> Inl error
      | Inr r1 \<Rightarrow>
          (case cardano_cbor_reader_read_textstring r1 of
             Inl error \<Rightarrow> Inl error
           | Inr (u, r2) \<Rightarrow>
               (case cardano_cbor_reader_read_bytestring r2 of
                  Inl error \<Rightarrow> Inl error
                | Inr (h, r3) \<Rightarrow>
                    if length h \<noteq> 32 then Inl CARDANO_ERROR_INVALID_BLAKE2B_HASH_SIZE
                    else (case cardano_cbor_validate_end_array r3 of
                            Inl error \<Rightarrow> Inl error
                          | Inr r4 \<Rightarrow> Inr (\<lparr>anchor_url = u, anchor_hash = h\<rparr>, r4)))))"

text \<open>
  \<open>cardano_register_drep_cert_t\<close>: the credential, the deposit and the anchor (\<open>None\<close> when
  the pointer is NULL).
\<close>

record cardano_register_drep_cert =
  credential :: cardano_credential
  deposit :: "64 word"
  anchor :: "cardano_anchor option"

definition EMBEDDED_GROUP_SIZE :: int where
  "EMBEDDED_GROUP_SIZE = 4"

definition cardano_register_drep_cert_new ::
  "cardano_credential \<Rightarrow> 64 word \<Rightarrow> cardano_anchor option \<Rightarrow>
     cardano_error_t + cardano_register_drep_cert" where
  "cardano_register_drep_cert_new drep_credential dep anch =
     Inr \<lparr>credential = drep_credential, deposit = dep, anchor = anch\<rparr>"

text \<open>
  \<open>cardano_register_drep_cert_from_cbor\<close>. The number of the certificate type,
  \<open>CARDANO_CERT_TYPE_DREP_REGISTRATION\<close> of cert_type.h (not among the sources), is the
  parameter \<open>cert_type\<close>. The result of \<open>read_null\<close> is discarded as in the source; the
  certificate is stored before the end of the array is validated, and is returned here when
  that validation succeeds.
\<close>

definition cardano_register_drep_cert_from_cbor ::
  "64 word \<Rightarrow> cbor_reader \<Rightarrow> cardano_error_t + cardano_register_drep_cert \<times> cbor_reader" where
  "cardano_register_drep_cert_from_cbor cert_type reader =
     (case cardano_cbor_validate_array_of_n_elements reader EMBEDDED_GROUP_SIZE of
        Inl expect_array_result \<Rightarrow> Inl expect_array_result
      | Inr r1 \<Rightarrow>
          (case cardano_cbor_validate_enum_value r1 cert_type of
             Inl read_uint_result \<Rightarrow> Inl read_uint_result
           | Inr (ty, r2) \<Rightarrow>
               (case cardano_credential_from_cbor r2 of
                  Inl read_credential_result \<Rightarrow> Inl read_credential_result
                | Inr (cred, r3) \<Rightarrow>
                    (case cardano_cbor_reader_read_uint r3 of
                       Inl read_deposit_result \<Rightarrow> Inl read_deposit_result
                     | Inr (dep, r4) \<Rightarrow>
                         (case cardano_cbor_reader_peek_state r4 of
                            Inl read_state \<Rightarrow> Inl read_state
                          | Inr state \<Rightarrow>
                              (case (if state = CARDANO_CBOR_READER_STATE_NULL
                                     then (case cardano_cbor_reader_read_null r4 of
                                             Inl read_null \<Rightarrow> Inr (None, r4)
                                           | Inr r5 \<Rightarrow> Inr (None, r5))
                                     else (case cardano_anchor_from_cbor r4 of
                                             Inl read_anchor_result \<Rightarrow> Inl read_anchor_result
                                           | Inr (a, r5) \<Rightarrow> Inr (Some a, r5))) of
                                 Inl error \<Rightarrow> Inl error
                               | Inr (anch, r5) \<Rightarrow>
                                   (case cardano_register_drep_cert_new cred dep anch of
                                      Inl new_result \<Rightarrow> Inl new_result
                                    | Inr cert \<Rightarrow>
                                        (case cardano_cbor_validate_end_array r5 of
                                           Inl error \<Rightarrow> Inl error
                                         | Inr r6 \<Rightarrow> Inr (cert, r6)))))))))"

definition cardano_register_drep_cert_to_cbor ::
  "64 word \<Rightarrow> cardano_register_drep_cert \<Rightarrow> cbor_writer \<Rightarrow> cardano_error_t + cbor_writer" where
  "cardano_register_drep_cert_to_cbor cert_type register_drep_cert writer =
     (case cardano_cbor_writer_write_start_array writer EMBEDDED_GROUP_SIZE of
        Inl write_array_result \<Rightarrow> Inl write_array_result
      | Inr w1 \<Rightarrow>
          (case cardano_cbor_writer_write_uint w1 cert_type of
             Inl write_type_result \<Rightarrow> Inl write_type_result
           | Inr w2 \<Rightarrow>
               (case cardano_credential_to_cbor (credential register_drep_cert) w2 of
                  Inl write_credential_result \<Rightarrow> Inl write_credential_result
                | Inr w3 \<Rightarrow>
                    (case cardano_cbor_writer_write_uint w3 (deposit register_drep_cert) of
                       Inl write_deposit_result \<Rightarrow> Inl write_deposit_result
                     | Inr w4 \<Rightarrow>
                         (case anchor register_drep_cert of
                            Some a \<Rightarrow> cardano_anchor_to_cbor a w4
                          | None \<Rightarrow> cardano_cbor_writer_write_null w4)))))"

section \<open>Properties of the metadatum JSON bridge\<close>

lemma takeWhile_take_commute: "takeWhile P (take n s) = take n (takeWhile P s)"
proof (induction s arbitrary: n)
  case Nil
  then show ?case by simp
next
  case (Cons c s)
  then show ?case by (cases n) auto
qed

text \<open>The capped length is the smaller of the C length and the cap.\<close>

lemma cardano_safe_strlen_eq: "cardano_safe_strlen s n = min (strlen s) n"
  by (simp add: cardano_safe_strlen_def strlen_def takeWhile_take_commute min.commute)

text \<open>The array loop succeeds exactly when every element converts, and appends the
  converted elements in order.\<close>

lemma handle_json_array_Inr:
  "handle_json_array xs acc = Inr m \<longleftrightarrow>
     (\<exists>ms. m = Metadatum_List (acc @ ms) \<and>
        list_all2 (\<lambda>x y. convert_json_to_metadatum x = Inr y) xs ms)"
proof (induction xs arbitrary: acc)
  case Nil
  then show ?case by (auto simp: cardano_metadatum_new_list_def)
next
  case (Cons x xs)
  show ?case
  proof (cases "convert_json_to_metadatum x")
    case (Inl e)
    then show ?thesis by (auto simp: list_all2_Cons1)
  next
    case (Inr y)
    then show ?thesis
      by (auto simp: Cons.IH cardano_metadatum_list_add_def list_all2_Cons1)
  qed
qed

text \<open>The object loop succeeds exactly when every member value converts; each key is
  the text of the member name cut at 64 bytes.\<close>

lemma handle_json_object_Inr:
  "handle_json_object kvs acc = Inr m \<longleftrightarrow>
     (\<exists>ms. m = Metadatum_Map (acc @ ms) \<and>
        list_all2 (\<lambda>kv e. fst e = Metadatum_Text (take (min (strlen (fst kv)) 64) (fst kv)) \<and>
                           convert_json_to_metadatum (snd kv) = Inr (snd e)) kvs ms)"
proof (induction kvs arbitrary: acc)
  case Nil
  then show ?case by (auto simp: cardano_metadatum_new_map_def)
next
  case (Cons kv kvs)
  obtain k v where kv: "kv = (k, v)" by (cases kv)
  show ?case
  proof (cases "convert_json_to_metadatum v")
    case (Inl e)
    then show ?thesis by (auto simp: kv list_all2_Cons1)
  next
    case (Inr y)
    then show ?thesis
      by (auto simp: kv Cons.IH cardano_metadatum_map_insert_def cardano_metadatum_new_string_def
          cardano_safe_strlen_eq list_all2_Cons1)
  qed
qed

lemma convert_JInt:
  "convert_json_to_metadatum (JInt n) =
     Inr (Metadatum_Integer (max (- (2 ^ 63)) (min (2 ^ 63 - 1) n)))"
  by (auto simp: json_object_get_int64_def json_object_get_uint64_def Let_def
      cardano_metadatum_new_integer_from_uint_def cardano_metadatum_new_integer_from_int_def)

text \<open>
  Claim C8, as stated: every JSON value is mapped by structure, a JSON number becoming an
  integer metadatum and a JSON string a text metadatum holding that string. It fails on a
  number that is not an integer, which is refused, and on a string of 65 bytes, of which
  the text keeps 64.
\<close>

theorem convert_json_to_metadatum_counterexample:
  "convert_json_to_metadatum (JDouble (3 / 2)) = Inl CARDANO_ERROR_INVALID_JSON \<and>
   convert_json_to_metadatum
     (JString ''aaaaaaaaaaaaaaaaaaaaaaaaaaaaaaaaaaaaaaaaaaaaaaaaaaaaaaaaaaaaaaaab'') =
     Inr (Metadatum_Text ''aaaaaaaaaaaaaaaaaaaaaaaaaaaaaaaaaaaaaaaaaaaaaaaaaaaaaaaaaaaaaaaa'')"
  by (simp add: cardano_metadatum_new_string_def cardano_safe_strlen_def)

text \<open>
  Claim C8, amended. \<open>convert_json_to_metadatum\<close> maps a JSON value by structure: a string
  becomes the text metadatum of its first 64 bytes at most; an integer becomes an integer
  metadatum (of its value within the \<open>int64_t\<close> range); a boolean and a number that is not
  an integer fail with the invalid-JSON error; an array becomes the metadatum list of its
  converted elements, and an object the metadatum map whose keys are the texts of the
  member names (64 bytes at most) and whose values are the converted member values, each
  exactly when every element (member value) converts.
\<close>

theorem convert_json_to_metadatum_by_structure:
  "convert_json_to_metadatum (JString s) = Inr (Metadatum_Text (take (min (strlen s) 64) s)) \<and>
   convert_json_to_metadatum (JInt n) =
     Inr (Metadatum_Integer (max (- (2 ^ 63)) (min (2 ^ 63 - 1) n))) \<and>
   convert_json_to_metadatum (JBool b) = Inl CARDANO_ERROR_INVALID_JSON \<and>
   convert_json_to_metadatum (JDouble d) = Inl CARDANO_ERROR_INVALID_JSON \<and>
   (convert_json_to_metadatum (JArray xs) = Inr ml \<longleftrightarrow>
      (\<exists>ms. ml = Metadatum_List ms \<and>
         list_all2 (\<lambda>x y. convert_json_to_metadatum x = Inr y) xs ms)) \<and>
   (convert_json_to_metadatum (JObject kvs) = Inr mm \<longleftrightarrow>
      (\<exists>ms. mm = Metadatum_Map ms \<and>
         list_all2 (\<lambda>kv e. fst e = Metadatum_Text (take (min (strlen (fst kv)) 64) (fst kv)) \<and>
                            convert_json_to_metadatum (snd kv) = Inr (snd e)) kvs ms))"
  using handle_json_array_Inr [of xs "[]" ml] handle_json_object_Inr [of kvs "[]" mm]
    convert_JInt [of n]
  by (simp add: cardano_metadatum_new_string_def cardano_safe_strlen_eq)

theorem convert_json_to_metadatum_by_structure_witness:
  "convert_json_to_metadatum (JArray [JInt 1, JString ''two'']) =
     Inr (Metadatum_List [Metadatum_Integer 1, Metadatum_Text ''two'']) \<and>
   convert_json_to_metadatum (JObject [(''nested'', JInt 3)]) =
     Inr (Metadatum_Map [(Metadatum_Text ''nested'', Metadatum_Integer 3)])"
  using convert_json_to_metadatum_by_structure
    [of "''two''" 1 True 0 "[JInt 1, JString ''two'']"
        "Metadatum_List [Metadatum_Integer 1, Metadatum_Text ''two'']" "[(''nested'', JInt 3)]"
        "Metadatum_Map [(Metadatum_Text ''nested'', Metadatum_Integer 3)]"]
  by (simp add: strlen_def cardano_metadatum_new_string_def cardano_safe_strlen_def
      cardano_metadatum_new_list_def cardano_metadatum_list_add_def
      cardano_metadatum_map_insert_def cardano_metadatum_new_map_def Let_def
      json_object_get_int64_def cardano_metadatum_new_integer_from_int_def)

lemma take_capped_strlen:
  "take (min (strlen s) 64) s = take 64 (takeWhile (\<lambda>c. c \<noteq> CHR 0x00) s)"
proof -
  have "take (min (strlen s) 64) s = take 64 (take (strlen s) s)"
    by (simp add: min.commute)
  also have "take (strlen s) s = takeWhile (\<lambda>c. c \<noteq> CHR 0x00) s"
    unfolding strlen_def by (rule takeWhile_eq_take [symmetric])
  finally show ?thesis .
qed

text \<open>
  Claim C9, as stated: a JSON string or member name whose length exceeds 64 bytes converts
  to the text of exactly its first 64 bytes. It fails on a string with a NUL character
  among its first 64 bytes, which json-c keeps in a string value: the conversion measures
  the string as C does, up to the first NUL, and the 72-byte string \<open>a\<close>, NUL, seventy
  \<open>b\<close> becomes the one-byte text \<open>a\<close>.
\<close>

theorem convert_json_long_string_counterexample:
  "length (CHR ''a'' # CHR 0x00 # replicate 70 (CHR ''b'')) = 72 \<and>
   convert_json_to_metadatum (JString (CHR ''a'' # CHR 0x00 # replicate 70 (CHR ''b''))) =
     Inr (Metadatum_Text ''a'') \<and>
   convert_json_to_metadatum (JString (CHR ''a'' # CHR 0x00 # replicate 70 (CHR ''b''))) \<noteq>
     Inr (Metadatum_Text (take 64 (CHR ''a'' # CHR 0x00 # replicate 70 (CHR ''b''))))"
  by (simp add: cardano_metadatum_new_string_def cardano_safe_strlen_def)

text \<open>
  Claim C9, amended. \<open>cardano_metadatum_from_json\<close> truncates long JSON strings instead of
  rejecting them: a JSON string converts to the text metadatum of the first 64 bytes at
  most of what stands before its first NUL character, which is exactly the first 64 bytes
  of the string when its length as C measures it (the bytes before the first NUL) exceeds
  64; and in an object that converts, the key made from a member name is cut in the same
  way.
\<close>

theorem convert_json_truncates_long_strings:
  "convert_json_to_metadatum (JString s) =
     Inr (Metadatum_Text (take 64 (takeWhile (\<lambda>c. c \<noteq> CHR 0x00) s))) \<and>
   (64 < strlen s \<longrightarrow>
      convert_json_to_metadatum (JString s) = Inr (Metadatum_Text (take 64 s))) \<and>
   (convert_json_to_metadatum (JObject kvs) = Inr m \<longrightarrow> i < length kvs \<longrightarrow>
      (\<exists>ms. m = Metadatum_Map ms \<and> length ms = length kvs \<and>
         fst (ms ! i) =
           Metadatum_Text (take 64 (takeWhile (\<lambda>c. c \<noteq> CHR 0x00) (fst (kvs ! i)))) \<and>
         (64 < strlen (fst (kvs ! i)) \<longrightarrow>
            fst (ms ! i) = Metadatum_Text (take 64 (fst (kvs ! i))))))"
proof (intro conjI impI)
  show "convert_json_to_metadatum (JString s) =
     Inr (Metadatum_Text (take 64 (takeWhile (\<lambda>c. c \<noteq> CHR 0x00) s)))"
    by (simp add: cardano_metadatum_new_string_def cardano_safe_strlen_eq take_capped_strlen)
next
  assume "64 < strlen s"
  then show "convert_json_to_metadatum (JString s) = Inr (Metadatum_Text (take 64 s))"
    by (simp add: cardano_metadatum_new_string_def cardano_safe_strlen_eq)
next
  assume conv: "convert_json_to_metadatum (JObject kvs) = Inr m"
    and i: "i < length kvs"
  from conv obtain ms where m: "m = Metadatum_Map ms"
    and all: "list_all2 (\<lambda>kv e. fst e = Metadatum_Text (take (min (strlen (fst kv)) 64) (fst kv)) \<and>
                           convert_json_to_metadatum (snd kv) = Inr (snd e)) kvs ms"
    using handle_json_object_Inr [of kvs "[]" m] by auto
  from all have len: "length ms = length kvs"
    by (simp add: list_all2_lengthD)
  from list_all2_nthD [OF all i]
  have key: "fst (ms ! i) = Metadatum_Text (take (min (strlen (fst (kvs ! i))) 64) (fst (kvs ! i)))"
    by simp
  then have cut: "fst (ms ! i) =
      Metadatum_Text (take 64 (takeWhile (\<lambda>c. c \<noteq> CHR 0x00) (fst (kvs ! i))))"
    by (simp only: take_capped_strlen)
  from key have "64 < strlen (fst (kvs ! i)) \<longrightarrow>
      fst (ms ! i) = Metadatum_Text (take 64 (fst (kvs ! i)))"
    by simp
  with m len cut show "\<exists>ms. m = Metadatum_Map ms \<and> length ms = length kvs \<and>
         fst (ms ! i) =
           Metadatum_Text (take 64 (takeWhile (\<lambda>c. c \<noteq> CHR 0x00) (fst (kvs ! i)))) \<and>
         (64 < strlen (fst (kvs ! i)) \<longrightarrow>
            fst (ms ! i) = Metadatum_Text (take 64 (fst (kvs ! i))))"
    by blast
qed

theorem convert_json_truncates_long_strings_witness:
  "convert_json_to_metadatum
     (JString ''aaaaaaaaaaaaaaaaaaaaaaaaaaaaaaaaaaaaaaaaaaaaaaaaaaaaaaaaaaaaaaaab'') =
     Inr (Metadatum_Text ''aaaaaaaaaaaaaaaaaaaaaaaaaaaaaaaaaaaaaaaaaaaaaaaaaaaaaaaaaaaaaaaa'') \<and>
   (\<exists>ms. convert_json_to_metadatum
       (JObject [(''kkkkkkkkkkkkkkkkkkkkkkkkkkkkkkkkkkkkkkkkkkkkkkkkkkkkkkkkkkkkkkkkx'', JInt 1)]) =
         Inr (Metadatum_Map ms) \<and>
       fst (ms ! 0) =
         Metadatum_Text ''kkkkkkkkkkkkkkkkkkkkkkkkkkkkkkkkkkkkkkkkkkkkkkkkkkkkkkkkkkkkkkkk'')"
  using convert_json_truncates_long_strings
    [of "''aaaaaaaaaaaaaaaaaaaaaaaaaaaaaaaaaaaaaaaaaaaaaaaaaaaaaaaaaaaaaaaab''"
        "[(''kkkkkkkkkkkkkkkkkkkkkkkkkkkkkkkkkkkkkkkkkkkkkkkkkkkkkkkkkkkkkkkkx'', JInt 1)]"
        "Metadatum_Map [(Metadatum_Text ''kkkkkkkkkkkkkkkkkkkkkkkkkkkkkkkkkkkkkkkkkkkkkkkkkkkkkkkkkkkkkkkk'',
           Metadatum_Integer 1)]" 0]
  by (simp add: strlen_def cardano_metadatum_new_string_def cardano_safe_strlen_def
      cardano_metadatum_map_insert_def cardano_metadatum_new_map_def Let_def
      json_object_get_int64_def cardano_metadatum_new_integer_from_int_def)

text \<open>
  A bytes metadatum is refused by \<open>cardano_metadatum_to_json\<close> with the
  invalid-metadatum-conversion error, and the message is set on that metadatum. So is a
  list with a bytes element.
\<close>

lemma to_json_bytes_refused:
  "cardano_metadatum_to_json render (Some (Metadatum_Bytes b)) (Some json_size) =
     (CARDANO_ERROR_INVALID_METADATUM_CONVERSION, None,
      [(Metadatum_Bytes b, ''Metadatum of type 'bytes' cannot be converted to JSON.'')])"
  by (simp add: cardano_metadatum_to_json_def)

lemma to_json_list_with_bytes_refused:
  "cardano_metadatum_to_json render
     (Some (Metadatum_List [Metadatum_Integer 5, Metadatum_Bytes b])) (Some json_size) =
     (CARDANO_ERROR_INVALID_METADATUM_CONVERSION, None,
      [(Metadatum_Bytes b, ''Metadatum of type 'bytes' cannot be converted to JSON.'')])"
  by (simp add: cardano_metadatum_to_json_def)

text \<open>
  Claim C7. Every metadatum tree that contains a bytes node must fail to serialize to
  JSON. The code does not do so for a bytes value under a map: the map loop tests the
  metadatum \<open>value\<close> where it means the JSON value returned for it, adds the NULL it got
  as the member's value, and with a buffer that is large enough
  \<open>cardano_metadatum_to_json\<close> returns success with a JSON object whose member is
  \<open>null\<close>.
\<close>

theorem to_json_accepts_bytes_under_map:
  "cardano_metadatum_to_json render
     (Some (Metadatum_Map [(Metadatum_Text ''k'', Metadatum_Bytes [1])]))
     (Some (strlen (render (JObject [(''k'', JNull)])) + 1)) =
     (CARDANO_SUCCESS,
      Some (take (strlen (render (JObject [(''k'', JNull)]))) (render (JObject [(''k'', JNull)]))),
      [(Metadatum_Bytes [1], ''Metadatum of type 'bytes' cannot be converted to JSON.'')])"
  by (simp add: cardano_metadatum_to_json_def Let_def)

text \<open>
  \<open>cardano_metadatum_from_json\<close> hands the parsed value of a text that parses to
  \<open>convert_json_to_metadatum\<close> and returns its result.
\<close>

lemma from_json_converts_parsed_value:
  assumes "json_size \<noteq> 0" and "json_tokener_parse text \<noteq> JNull"
  shows "cardano_metadatum_from_json json_tokener_parse (Some text) json_size =
     convert_json_to_metadatum (json_tokener_parse text)"
  using assms by (simp add: cardano_metadatum_from_json_def)

section \<open>Properties of the plutus data set accessors\<close>

text \<open>
  Claim C10. Indexing into a plutus data set is guarded: for every set and every index
  at or beyond its length, \<open>cardano_plutus_data_set_get\<close> returns the out-of-bounds-read
  error and leaves the variable behind the output pointer as it was; for every index
  below the length it succeeds and stores the element at that position.
\<close>

theorem plutus_data_set_get_guarded:
  "(length (array s) \<le> i \<longrightarrow>
      cardano_plutus_data_set_get (Some s) i (Some old) =
        (CARDANO_ERROR_OUT_OF_BOUNDS_MEMORY_READ, Some old)) \<and>
   (i < length (array s) \<longrightarrow>
      cardano_plutus_data_set_get (Some s) i (Some old) =
        (CARDANO_SUCCESS, Some (Some (array s ! i))))"
  by (simp add: cardano_plutus_data_set_get_def cardano_array_get_def)

theorem plutus_data_set_get_guarded_witness:
  "cardano_plutus_data_set_get
     (Some \<lparr>array = [10, 20, 30 :: nat], uses_tags = True, cbor_cache = None\<rparr>) 3 (Some None) =
     (CARDANO_ERROR_OUT_OF_BOUNDS_MEMORY_READ, Some None) \<and>
   cardano_plutus_data_set_get
     (Some \<lparr>array = [10, 20, 30 :: nat], uses_tags = True, cbor_cache = None\<rparr>) 2 (Some None) =
     (CARDANO_SUCCESS, Some (Some 30))"
  using plutus_data_set_get_guarded
    [of "\<lparr>array = [10, 20, 30 :: nat], uses_tags = True, cbor_cache = None\<rparr>" 3 None]
    plutus_data_set_get_guarded
    [of "\<lparr>array = [10, 20, 30 :: nat], uses_tags = True, cbor_cache = None\<rparr>" 2 None]
  by simp

section \<open>Properties of the script-evaluation response parser\<close>

lemma isdigit_not_space: "isdigit c \<Longrightarrow> \<not> isspace c"
  by (auto simp: isdigit_def isspace_def)

lemma isdigit_not_sign: "isdigit c \<Longrightarrow> c \<noteq> CHR ''-'' \<and> c \<noteq> CHR ''+''"
  by (auto simp: isdigit_def)

lemma takeWhile_all: "list_all P xs \<Longrightarrow> takeWhile P xs = xs"
  by (induction xs) auto

lemma dropWhile_all: "list_all P xs \<Longrightarrow> dropWhile P xs = []"
  by (induction xs) auto

lemma strto_subject_digits:
  assumes "s \<noteq> []" and "list_all isdigit s"
  shows "strto_subject s = Some (False, digits_value 0 s, [])"
proof -
  from assms obtain c cs where s: "s = c # cs" and c: "isdigit c"
    by (cases s) auto
  have "dropWhile isspace s = s"
    using c by (simp add: s isdigit_not_space)
  then show ?thesis
    using assms c isdigit_not_sign [OF c]
    by (simp add: strto_subject_def Let_def takeWhile_all dropWhile_all s)
qed

lemma strtol_digits:
  assumes "s \<noteq> []" and "list_all isdigit s" and "digits_value 0 s < 2 ^ 63"
  shows "strtol s = (int (digits_value 0 s), [])"
  using assms by (simp add: strtol_def strto_subject_digits)

lemma strchr_split:
  "c \<notin> set pre \<Longrightarrow> strchr (pre @ c # post) c = Some (pre, c # post)"
  by (induction pre) (auto simp: strchr_def)

lemma set_ex_units_first_match:
  assumes "\<forall>x \<in> set before. \<not> (redeemer_tag x = t \<and> redeemer_index x = i)"
    and "redeemer_tag r = t" and "redeemer_index r = i"
  shows "cardano_redeemer_list_set_ex_units (before @ r # after) t i mem steps =
           Inr (before @ r\<lparr>ex_units_memory := mem, ex_units_steps := steps\<rparr> # after)"
  using assms by (induction before) auto

lemma parse_tx_eval_response_loop:
  assumes "json_object_object_get_ex parsed_json ''result'' = Some result_obj"
    and "json_object_object_get_ex result_obj ''EvaluationFailure'' = None"
    and "json_object_object_get_ex result_obj ''EvaluationResult'' = Some (JObject members)"
  shows "cardano_blockfrost_parse_tx_eval_response parsed_json original =
           (case parse_tx_eval_entries original members of
              Inl error \<Rightarrow> (error, None, Some ''Failed to parse JSON response'')
            | Inr rs \<Rightarrow> (CARDANO_SUCCESS, Some rs, None))"
  using assms
  by (cases parsed_json)
    (simp_all add: cardano_blockfrost_parse_tx_eval_response_def cardano_redeemer_list_clone_def)

lemma entry_no_colon:
  "CHR '':'' \<notin> set key \<Longrightarrow> parse_tx_eval_entry rs (key, val) = Inr rs"
  by (simp add: parse_tx_eval_entry_def strchr_def)

lemma entry_set:
  assumes "CHR '':'' \<notin> set tag_str"
    and "redeemer_tag_string_to_enum tag_str = Some t"
    and "index_str \<noteq> []" and "list_all isdigit index_str" and "digits_value 0 index_str < 2 ^ 63"
    and "json_object_object_get_ex val ''memory'' = Some memory_obj"
    and "json_object_object_get_ex val ''steps'' = Some steps_obj"
  shows "parse_tx_eval_entry rs (tag_str @ CHR '':'' # index_str, val) =
           cardano_redeemer_list_set_ex_units rs t (of_nat (digits_value 0 index_str))
             (json_object_get_uint64 memory_obj) (json_object_get_uint64 steps_obj)"
proof -
  have "length tag_str < 128"
    using assms(2) by (auto simp: redeemer_tag_string_to_enum_def split: if_splits)
  then show ?thesis
    using assms by (simp add: parse_tx_eval_entry_def strchr_split strtol_digits)
qed

lemma entry_skip:
  assumes "CHR '':'' \<notin> set tag_str"
    and "redeemer_tag_string_to_enum tag_str = None \<or> index_str = [] \<or>
         snd (strtol index_str) \<noteq> [] \<or>
         json_object_object_get_ex val ''memory'' = None \<or>
         json_object_object_get_ex val ''steps'' = None"
  shows "parse_tx_eval_entry rs (tag_str @ CHR '':'' # index_str, val) = Inr rs"
  using assms
  by (auto simp: parse_tx_eval_entry_def strchr_split Let_def split: prod.splits option.splits)

text \<open>What \<open>strtol\<close> reads in full: white space, one optional sign, and digits.\<close>

lemma dropWhile_space_prefix:
  "list_all isspace ws \<Longrightarrow> (rest = [] \<or> \<not> isspace (hd rest)) \<Longrightarrow>
     dropWhile isspace (ws @ rest) = rest"
proof (induction ws)
  case Nil
  then show ?case by (cases rest) auto
next
  case (Cons w ws)
  then show ?case by simp
qed

lemma dropWhile_Nil_all: "dropWhile P xs = [] \<Longrightarrow> list_all P xs"
  by (induction xs) (auto split: if_splits)

lemma list_all_takeWhile: "list_all P (takeWhile P xs)"
  by (induction xs) auto

lemma sign_not_space: "\<not> isspace CHR ''+''" "\<not> isspace CHR ''-''"
  by (simp_all add: isspace_def)

lemma strtol_reads_in_full_iff:
  "s \<noteq> [] \<and> snd (strtol s) = [] \<longleftrightarrow>
     (\<exists>ws sg ds. s = ws @ sg @ ds \<and> list_all isspace ws \<and>
        (sg = [] \<or> sg = ''+'' \<or> sg = ''-'') \<and> ds \<noteq> [] \<and> list_all isdigit ds)"
proof
  assume a: "s \<noteq> [] \<and> snd (strtol s) = []"
  define s1 where "s1 = dropWhile isspace s"
  define s2 where "s2 = (if s1 \<noteq> [] \<and> (hd s1 = CHR ''-'' \<or> hd s1 = CHR ''+'') then tl s1 else s1)"
  define sg where "sg = (if s1 \<noteq> [] \<and> (hd s1 = CHR ''-'' \<or> hd s1 = CHR ''+'') then [hd s1] else [])"
  have subj: "strto_subject s =
      (if takeWhile isdigit s2 = [] then None
       else Some (s1 \<noteq> [] \<and> hd s1 = CHR ''-'', digits_value 0 (takeWhile isdigit s2), dropWhile isdigit s2))"
    by (simp add: strto_subject_def Let_def s1_def s2_def)
  from a have nonempty: "takeWhile isdigit s2 \<noteq> []"
    by (auto simp: strtol_def subj split: if_splits)
  with a have "dropWhile isdigit s2 = []"
    by (auto simp: strtol_def subj split: if_splits)
  then have digits: "list_all isdigit s2"
    by (rule dropWhile_Nil_all)
  from nonempty have s2: "s2 \<noteq> []" by auto
  have "s = takeWhile isspace s @ s1"
    by (simp add: s1_def)
  moreover have "s1 = sg @ s2"
    by (cases s1) (auto simp: sg_def s2_def)
  ultimately have "s = takeWhile isspace s @ sg @ s2" by simp
  moreover have "sg = [] \<or> sg = ''+'' \<or> sg = ''-''"
    by (auto simp: sg_def)
  ultimately show "\<exists>ws sg ds. s = ws @ sg @ ds \<and> list_all isspace ws \<and>
        (sg = [] \<or> sg = ''+'' \<or> sg = ''-'') \<and> ds \<noteq> [] \<and> list_all isdigit ds"
    using digits s2 list_all_takeWhile [of isspace s] by blast
next
  assume "\<exists>ws sg ds. s = ws @ sg @ ds \<and> list_all isspace ws \<and>
        (sg = [] \<or> sg = ''+'' \<or> sg = ''-'') \<and> ds \<noteq> [] \<and> list_all isdigit ds"
  then obtain ws sg ds where s: "s = ws @ sg @ ds" and ws: "list_all isspace ws"
    and sg: "sg = [] \<or> sg = ''+'' \<or> sg = ''-''" and ds: "ds \<noteq> []" "list_all isdigit ds"
    by blast
  from ds obtain d ds' where d: "ds = d # ds'" "isdigit d"
    by (cases ds) auto
  have "sg @ ds = [] \<or> \<not> isspace (hd (sg @ ds))"
    using sg d by (auto simp: sign_not_space isdigit_not_space)
  then have s1: "dropWhile isspace s = sg @ ds"
    unfolding s using ws by (simp add: dropWhile_space_prefix)
  have "strto_subject s = Some (sg = ''-'', digits_value 0 ds, [])"
    using sg d ds isdigit_not_sign [OF d(2)]
    by (auto simp: strto_subject_def Let_def s1 takeWhile_all dropWhile_all list_all_iff)
  then show "s \<noteq> [] \<and> snd (strtol s) = []"
    using ds by (simp add: strtol_def s)
qed

text \<open>
  Claim C6. For every response whose parsed JSON has a \<open>result\<close> member with an
  \<open>EvaluationFailure\<close> member, \<open>cardano_blockfrost_parse_tx_eval_response\<close> returns the
  script-evaluation-failure error, releases the cloned redeemer list and returns no
  redeemers.
\<close>

theorem eval_failure_is_reported:
  "json_object_object_get_ex parsed_json ''result'' = Some result_obj \<Longrightarrow>
   json_object_object_get_ex result_obj ''EvaluationFailure'' = Some failure \<Longrightarrow>
   cardano_blockfrost_parse_tx_eval_response parsed_json original_redeemers =
     (CARDANO_ERROR_SCRIPT_EVALUATION_FAILURE, None, Some ''Failed evaluate scripts'')"
  by (cases parsed_json)
    (simp_all add: cardano_blockfrost_parse_tx_eval_response_def cardano_redeemer_list_clone_def)

theorem eval_failure_is_reported_witness:
  "cardano_blockfrost_parse_tx_eval_response
     (JObject [(''result'', JObject [(''EvaluationFailure'', JObject [])])])
     [\<lparr>redeemer_tag = CARDANO_REDEEMER_TAG_SPEND, redeemer_index = 0, redeemer_data = (),
       ex_units_memory = 0, ex_units_steps = 0\<rparr>] =
     (CARDANO_ERROR_SCRIPT_EVALUATION_FAILURE, None, Some ''Failed evaluate scripts'')"
  using eval_failure_is_reported
    [of "JObject [(''result'', JObject [(''EvaluationFailure'', JObject [])])]"
        "JObject [(''EvaluationFailure'', JObject [])]" "JObject []"]
  by simp

text \<open>
  The loop against the specification's reading of the members: the tags the code
  recognises are the six of the table, a member the specification has set is handed to
  \<open>cardano_redeemer_list_set_ex_units\<close> with the tag and index of its key, and a member
  it has skipped leaves the redeemers as they are.
\<close>

lemma tag_table:
  "redeemer_tag_string_to_enum tag_str = map_of spec_redeemer_tags tag_str"
  by (simp add: redeemer_tag_string_to_enum_def spec_redeemer_tags_def)

lemma tag_not_in_table:
  "tag_str \<notin> set (map fst spec_redeemer_tags) \<longleftrightarrow> map_of spec_redeemer_tags tag_str = None"
  by (simp add: map_of_eq_None_iff)

lemma key_parts_split:
  assumes "spec_key_parts key = Some (tag_part, index_part)"
  shows "key = tag_part @ CHR '':'' # index_part \<and> CHR '':'' \<notin> set tag_part"
proof -
  from assms have colon: "CHR '':'' \<in> set key"
    and tag: "tag_part = takeWhile (\<lambda>c. c \<noteq> CHR '':'') key"
    and idx: "index_part = drop (Suc (length tag_part)) key"
    by (auto simp: spec_key_parts_def Let_def split: if_splits)
  from colon have ne: "dropWhile (\<lambda>c. c \<noteq> CHR '':'') key \<noteq> []"
    by auto
  from hd_dropWhile [OF ne] have "hd (dropWhile (\<lambda>c. c \<noteq> CHR '':'') key) = CHR '':''"
    by simp
  with ne obtain rest where d: "dropWhile (\<lambda>c. c \<noteq> CHR '':'') key = CHR '':'' # rest"
    by (cases "dropWhile (\<lambda>c. c \<noteq> CHR '':'') key") auto
  have k: "key = tag_part @ CHR '':'' # rest"
    using takeWhile_dropWhile_id [of "\<lambda>c. c \<noteq> CHR '':''" key] d tag by simp
  then have "index_part = rest"
    using idx by simp
  moreover have "CHR '':'' \<notin> set tag_part"
    unfolding tag by (auto dest: set_takeWhileD)
  ultimately show ?thesis using k by simp
qed

lemma key_parts_None: "spec_key_parts key = None \<Longrightarrow> CHR '':'' \<notin> set key"
  by (auto simp: spec_key_parts_def Let_def split: if_splits)

lemma reads_as_integer_strtol:
  "spec_reads_as_integer s \<longleftrightarrow> s \<noteq> [] \<and> snd (strtol s) = []"
proof (cases "dropWhile isspace s")
  case Nil
  then show ?thesis
    by (cases s) (auto simp: spec_reads_as_integer_def strtol_def strto_subject_def)
next
  case (Cons c cs)
  then have ne: "s \<noteq> []" by auto
  show ?thesis
  proof (cases "c = CHR ''+'' \<or> c = CHR ''-''")
    case True
    then show ?thesis
      using Cons ne
      by (cases cs)
        (auto simp: spec_reads_as_integer_def strtol_def strto_subject_def Let_def
          takeWhile_all dropWhile_all list_all_iff takeWhile_eq_Nil_iff
          split: if_splits)
  next
    case False
    then show ?thesis
      using Cons ne
      by (auto simp: spec_reads_as_integer_def strtol_def strto_subject_def Let_def
          takeWhile_all dropWhile_all list_all_iff
          split: if_splits)
  qed
qed

lemma decimal_reads_as_integer:
  assumes "spec_decimal_index s"
  shows "spec_reads_as_integer s"
proof -
  from assms have "s \<noteq> []" "list_all isdigit s" "digits_value 0 s < 2 ^ 63"
    by (simp_all add: spec_decimal_index_def)
  then have "strtol s = (int (digits_value 0 s), [])" by (rule strtol_digits)
  with \<open>s \<noteq> []\<close> show ?thesis by (simp add: reads_as_integer_strtol)
qed

lemma entry_target_sets:
  assumes "spec_entry_target (key, val) = Some (t, i, mem, steps)"
  shows "parse_tx_eval_entry rs (key, val) = cardano_redeemer_list_set_ex_units rs t i mem steps"
proof -
  from assms obtain tag_part index_part memory_obj steps_obj where
    parts: "spec_key_parts key = Some (tag_part, index_part)"
    and tag: "map_of spec_redeemer_tags tag_part = Some t"
    and dec: "spec_decimal_index index_part"
    and m: "json_object_object_get_ex val ''memory'' = Some memory_obj"
    and s: "json_object_object_get_ex val ''steps'' = Some steps_obj"
    and vals: "i = of_nat (digits_value 0 index_part)" "mem = json_object_get_uint64 memory_obj"
      "steps = json_object_get_uint64 steps_obj"
    by (auto simp: spec_entry_target_def split: option.splits if_splits)
  from key_parts_split [OF parts]
  have key: "key = tag_part @ CHR '':'' # index_part" and colon: "CHR '':'' \<notin> set tag_part"
    by simp_all
  from dec have d: "index_part \<noteq> []" "list_all isdigit index_part"
    "digits_value 0 index_part < 2 ^ 63"
    by (simp_all add: spec_decimal_index_def)
  from tag have t: "redeemer_tag_string_to_enum tag_part = Some t"
    by (simp add: tag_table)
  show ?thesis
    unfolding key vals by (rule entry_set [OF colon t d m s])
qed

lemma entry_skipped_unchanged:
  assumes "spec_entry_skipped (key, val)"
  shows "parse_tx_eval_entry rs (key, val) = Inr rs"
proof (cases "spec_key_parts key")
  case None
  then show ?thesis by (intro entry_no_colon key_parts_None)
next
  case (Some p)
  obtain tag_part index_part where p: "p = (tag_part, index_part)" by (cases p)
  from key_parts_split [OF Some [unfolded p]]
  have key: "key = tag_part @ CHR '':'' # index_part" and colon: "CHR '':'' \<notin> set tag_part"
    by simp_all
  from assms Some p have "redeemer_tag_string_to_enum tag_part = None \<or> index_part = [] \<or>
         snd (strtol index_part) \<noteq> [] \<or>
         json_object_object_get_ex val ''memory'' = None \<or>
         json_object_object_get_ex val ''steps'' = None"
    unfolding tag_table tag_not_in_table [symmetric]
    by (auto simp: spec_entry_skipped_def reads_as_integer_strtol)
  with colon show ?thesis unfolding key by (rule entry_skip)
qed

lemma entry_skipped_no_target:
  assumes "spec_entry_skipped entry"
  shows "spec_entry_target entry = None"
proof (cases "spec_key_parts (fst entry)")
  case None
  then show ?thesis by (simp add: spec_entry_target_def)
next
  case (Some p)
  obtain tag_part index_part where p: "p = (tag_part, index_part)" by (cases p)
  from assms Some p have "map_of spec_redeemer_tags tag_part = None \<or>
      \<not> spec_decimal_index index_part \<or>
      json_object_object_get_ex (snd entry) ''memory'' = None \<or>
      json_object_object_get_ex (snd entry) ''steps'' = None"
    unfolding tag_not_in_table [symmetric]
    using decimal_reads_as_integer [of index_part]
    by (auto simp: spec_entry_skipped_def)
  then show ?thesis
    using Some p by (auto simp: spec_entry_target_def split: option.splits)
qed

lemma set_ex_units_is_set_first:
  assumes "\<exists>r \<in> set rs. redeemer_tag r = t \<and> redeemer_index r = i"
  shows "cardano_redeemer_list_set_ex_units rs t i mem steps = Inr (spec_set_first t i mem steps rs)"
  using assms
proof (induction rs)
  case Nil
  then show ?case by simp
next
  case (Cons r rs)
  show ?case
  proof (cases "redeemer_tag r = t \<and> redeemer_index r = i")
    case True
    then show ?thesis by simp
  next
    case False
    with Cons.prems have "\<exists>x \<in> set rs. redeemer_tag x = t \<and> redeemer_index x = i"
      by auto
    from Cons.IH [OF this] False show ?thesis by auto
  qed
qed

lemma set_first_keeps_tags_and_indices:
  "map (\<lambda>r. (redeemer_tag r, redeemer_index r)) (spec_set_first t i mem steps rs) =
     map (\<lambda>r. (redeemer_tag r, redeemer_index r)) rs"
  by (induction rs) auto

lemma apply_entry_keeps_tags_and_indices:
  "map (\<lambda>r. (redeemer_tag r, redeemer_index r)) (spec_apply_entry rs entry) =
     map (\<lambda>r. (redeemer_tag r, redeemer_index r)) rs"
  by (simp add: spec_apply_entry_def set_first_keeps_tags_and_indices split: option.splits)

lemma parse_tx_eval_entries_refines:
  assumes "\<forall>entry \<in> set members. spec_entry_skipped entry \<or>
      (\<exists>t i mem steps. spec_entry_target entry = Some (t, i, mem, steps) \<and>
         (t, i) \<in> set (map (\<lambda>r. (redeemer_tag r, redeemer_index r)) rs))"
  shows "parse_tx_eval_entries rs members = Inr (foldl spec_apply_entry rs members)"
  using assms
proof (induction members arbitrary: rs)
  case Nil
  then show ?case by simp
next
  case (Cons entry members)
  obtain key val where e: "entry = (key, val)" by (cases entry)
  have step: "parse_tx_eval_entry rs entry = Inr (spec_apply_entry rs entry)"
  proof (cases "spec_entry_skipped entry")
    case True
    then show ?thesis
      using entry_skipped_unchanged [of key val rs] entry_skipped_no_target [of entry]
      by (simp add: e spec_apply_entry_def)
  next
    case False
    with Cons.prems obtain t i mem steps where
      tg: "spec_entry_target entry = Some (t, i, mem, steps)"
      and ex: "(t, i) \<in> set (map (\<lambda>r. (redeemer_tag r, redeemer_index r)) rs)"
      by auto
    from ex have "\<exists>r \<in> set rs. redeemer_tag r = t \<and> redeemer_index r = i" by auto
    then show ?thesis
      using entry_target_sets [OF tg [unfolded e], of rs] tg
      by (simp add: e spec_apply_entry_def set_ex_units_is_set_first)
  qed
  have "\<forall>e' \<in> set members. spec_entry_skipped e' \<or>
      (\<exists>t i mem steps. spec_entry_target e' = Some (t, i, mem, steps) \<and>
         (t, i) \<in> set (map (\<lambda>r. (redeemer_tag r, redeemer_index r)) (spec_apply_entry rs entry)))"
    using Cons.prems unfolding apply_entry_keeps_tags_and_indices by simp
  from Cons.IH [OF this] step show ?case by simp
qed

text \<open>
  Claim C5, as stated: an entry with a well-formed decimal index sets the execution units
  of the redeemer with that tag and index, and an entry with a malformed index is skipped.
  It fails on the key \<open>spend: 0\<close>, whose index part starts with a blank: \<open>strtol\<close>
  skips the blank and the redeemer (spend, 0) is updated. It fails on the index
  \<open>9223372036854775808\<close>, which \<open>strtol\<close> clamps to \<open>LONG_MAX\<close>: the redeemer with
  index \<open>9223372036854775807\<close> is updated and the one with the index of the key is not.
\<close>

theorem parse_tx_eval_counterexample:
  "cardano_blockfrost_parse_tx_eval_response
     (JObject [(''result'', JObject [(''EvaluationResult'',
        JObject [(''spend: 0'', JObject [(''memory'', JInt 2000), (''steps'', JInt 500000)])])])])
     [\<lparr>redeemer_tag = CARDANO_REDEEMER_TAG_SPEND, redeemer_index = 0, redeemer_data = (),
       ex_units_memory = 0, ex_units_steps = 0\<rparr>] =
     (CARDANO_SUCCESS,
      Some [\<lparr>redeemer_tag = CARDANO_REDEEMER_TAG_SPEND, redeemer_index = 0, redeemer_data = (),
             ex_units_memory = 2000, ex_units_steps = 500000\<rparr>],
      None) \<and>
   cardano_blockfrost_parse_tx_eval_response
     (JObject [(''result'', JObject [(''EvaluationResult'',
        JObject [(''spend:9223372036854775808'', JObject [(''memory'', JInt 1), (''steps'', JInt 2)])])])])
     [\<lparr>redeemer_tag = CARDANO_REDEEMER_TAG_SPEND, redeemer_index = 9223372036854775807,
       redeemer_data = (), ex_units_memory = 0, ex_units_steps = 0\<rparr>,
      \<lparr>redeemer_tag = CARDANO_REDEEMER_TAG_SPEND, redeemer_index = 9223372036854775808,
       redeemer_data = (), ex_units_memory = 0, ex_units_steps = 0\<rparr>] =
     (CARDANO_SUCCESS,
      Some [\<lparr>redeemer_tag = CARDANO_REDEEMER_TAG_SPEND, redeemer_index = 9223372036854775807,
             redeemer_data = (), ex_units_memory = 1, ex_units_steps = 2\<rparr>,
            \<lparr>redeemer_tag = CARDANO_REDEEMER_TAG_SPEND, redeemer_index = 9223372036854775808,
             redeemer_data = (), ex_units_memory = 0, ex_units_steps = 0\<rparr>],
      None)"
  by (simp add: parse_tx_eval_entry_def strchr_def strtol_def strto_subject_def isspace_def
      isdigit_def digit_value_def redeemer_tag_string_to_enum_def json_object_get_uint64_def
      Let_def cardano_blockfrost_parse_tx_eval_response_def cardano_redeemer_list_clone_def)

text \<open>
  Claim C5, amended. With \<open>result.EvaluationResult\<close> an object and no
  \<open>result.EvaluationFailure\<close>, every member is handled, in order. A member whose key is
  \<open>tag:index\<close> with one of the six tags spend, mint, certificate, withdrawal, vote and
  propose, an index of decimal digits only whose value is below \<open>2 ^ 63\<close>, and with
  \<open>memory\<close> and \<open>steps\<close> members, sets the execution units of the first redeemer with
  that tag and index to (memory, steps) and leaves the others as they are. A member is
  skipped, with no error and no change, when its key has no colon, when the tag is not one
  of the six, when the index part is not white space, an optional sign and at least one
  digit and nothing else, or when \<open>memory\<close> or \<open>steps\<close> is missing. When every member is
  of one of these two sorts and the redeemer each of the first sort addresses is in the
  list, the function succeeds and returns the redeemers after all the members.
\<close>

theorem parse_tx_eval_sets_or_skips:
  assumes "json_object_object_get_ex parsed_json ''result'' = Some result_obj"
    and "json_object_object_get_ex result_obj ''EvaluationFailure'' = None"
    and "json_object_object_get_ex result_obj ''EvaluationResult'' = Some (JObject members)"
    and "\<forall>entry \<in> set members. spec_entry_skipped entry \<or>
      (\<exists>t i mem steps. spec_entry_target entry = Some (t, i, mem, steps) \<and>
         (\<exists>r \<in> set original. redeemer_tag r = t \<and> redeemer_index r = i))"
  shows "cardano_blockfrost_parse_tx_eval_response parsed_json original =
     (CARDANO_SUCCESS, Some (foldl spec_apply_entry original members), None)"
proof -
  from assms(4) have "\<forall>entry \<in> set members. spec_entry_skipped entry \<or>
      (\<exists>t i mem steps. spec_entry_target entry = Some (t, i, mem, steps) \<and>
         (t, i) \<in> set (map (\<lambda>r. (redeemer_tag r, redeemer_index r)) original))"
    by force
  then have "parse_tx_eval_entries original members = Inr (foldl spec_apply_entry original members)"
    by (rule parse_tx_eval_entries_refines)
  then show ?thesis
    using parse_tx_eval_response_loop [OF assms(1-3), of original] by simp
qed

theorem parse_tx_eval_sets_or_skips_witness:
  "cardano_blockfrost_parse_tx_eval_response
     (JObject [(''result'', JObject [(''EvaluationResult'',
        JObject [(''spend:0'', JObject [(''memory'', JInt 2000), (''steps'', JInt 500000)]),
                 (''unknown:7'', JObject [(''memory'', JInt 1), (''steps'', JInt 1)]),
                 (''mint:x1'', JObject [(''memory'', JInt 1), (''steps'', JInt 1)]),
                 (''vote'', JObject [(''memory'', JInt 1), (''steps'', JInt 1)]),
                 (''propose:1'', JObject [(''memory'', JInt 3)]),
                 (''mint:1'', JObject [(''memory'', JInt 7), (''steps'', JInt 9)])])])])
     [\<lparr>redeemer_tag = CARDANO_REDEEMER_TAG_SPEND, redeemer_index = 0, redeemer_data = (),
       ex_units_memory = 0, ex_units_steps = 0\<rparr>,
      \<lparr>redeemer_tag = CARDANO_REDEEMER_TAG_MINT, redeemer_index = 1, redeemer_data = (),
       ex_units_memory = 0, ex_units_steps = 0\<rparr>] =
     (CARDANO_SUCCESS,
      Some [\<lparr>redeemer_tag = CARDANO_REDEEMER_TAG_SPEND, redeemer_index = 0, redeemer_data = (),
             ex_units_memory = 2000, ex_units_steps = 500000\<rparr>,
            \<lparr>redeemer_tag = CARDANO_REDEEMER_TAG_MINT, redeemer_index = 1, redeemer_data = (),
             ex_units_memory = 7, ex_units_steps = 9\<rparr>],
      None)"
  using parse_tx_eval_sets_or_skips
    [of "JObject [(''result'', JObject [(''EvaluationResult'',
        JObject [(''spend:0'', JObject [(''memory'', JInt 2000), (''steps'', JInt 500000)]),
                 (''unknown:7'', JObject [(''memory'', JInt 1), (''steps'', JInt 1)]),
                 (''mint:x1'', JObject [(''memory'', JInt 1), (''steps'', JInt 1)]),
                 (''vote'', JObject [(''memory'', JInt 1), (''steps'', JInt 1)]),
                 (''propose:1'', JObject [(''memory'', JInt 3)]),
                 (''mint:1'', JObject [(''memory'', JInt 7), (''steps'', JInt 9)])])])]"
        "JObject [(''EvaluationResult'',
        JObject [(''spend:0'', JObject [(''memory'', JInt 2000), (''steps'', JInt 500000)]),
                 (''unknown:7'', JObject [(''memory'', JInt 1), (''steps'', JInt 1)]),
                 (''mint:x1'', JObject [(''memory'', JInt 1), (''steps'', JInt 1)]),
                 (''vote'', JObject [(''memory'', JInt 1), (''steps'', JInt 1)]),
                 (''propose:1'', JObject [(''memory'', JInt 3)]),
                 (''mint:1'', JObject [(''memory'', JInt 7), (''steps'', JInt 9)])])]"
        "[(''spend:0'', JObject [(''memory'', JInt 2000), (''steps'', JInt 500000)]),
                 (''unknown:7'', JObject [(''memory'', JInt 1), (''steps'', JInt 1)]),
                 (''mint:x1'', JObject [(''memory'', JInt 1), (''steps'', JInt 1)]),
                 (''vote'', JObject [(''memory'', JInt 1), (''steps'', JInt 1)]),
                 (''propose:1'', JObject [(''memory'', JInt 3)]),
                 (''mint:1'', JObject [(''memory'', JInt 7), (''steps'', JInt 9)])]"
        "[\<lparr>redeemer_tag = CARDANO_REDEEMER_TAG_SPEND, redeemer_index = 0, redeemer_data = (),
       ex_units_memory = 0, ex_units_steps = 0\<rparr>,
      \<lparr>redeemer_tag = CARDANO_REDEEMER_TAG_MINT, redeemer_index = 1, redeemer_data = (),
       ex_units_memory = 0, ex_units_steps = 0\<rparr>]"]
  by (simp add: spec_entry_skipped_def spec_entry_target_def spec_key_parts_def
      spec_redeemer_tags_def spec_decimal_index_def spec_reads_as_integer_def
      spec_apply_entry_def isdigit_def isspace_def digit_value_def json_object_get_uint64_def)

section \<open>Properties of the CBOR reader and writer\<close>

lemma length_be_bytes [simp]: "length (be_bytes k n) = k"
  by (induction k arbitrary: n) auto

lemma be_nat_acc_snoc: "be_nat_acc acc (bs @ [b]) = be_nat_acc acc bs * 256 + unat b"
  by (induction bs arbitrary: acc) auto

lemma be_nat_be_bytes: "n < 256 ^ k \<Longrightarrow> be_nat (be_bytes k n) = n"
proof (induction k arbitrary: n)
  case 0
  then show ?case by (simp add: be_nat_def)
next
  case (Suc k)
  from Suc.prems have "n div 256 < 256 ^ k"
    by (simp add: less_mult_imp_div_less mult.commute)
  then have "be_nat (be_bytes k (n div 256)) = n div 256"
    by (rule Suc.IH)
  then show ?case
    by (simp add: be_nat_def be_nat_acc_snoc unat_of_nat)
qed

lemma unat_initial_byte:
  assumes "major < 8" and "i < 32"
  shows "unat (initial_byte major i) = major * 32 + i"
proof -
  from assms have "major * 32 + i < 2 ^ 8" by simp
  then show ?thesis
    unfolding initial_byte_def by (subst unat_of_nat) simp
qed

lemma decode_head_initial:
  assumes "major < 8" and "i < 32"
  shows "decode_head (initial_byte major i # bs) =
     (if i < 24 then Some (major, Some i, bs)
      else if i = 31 then Some (major, None, bs)
      else if 28 \<le> i then None
      else if length bs < 2 ^ (i - 24) then None
      else Some (major, Some (be_nat (take (2 ^ (i - 24)) bs)), drop (2 ^ (i - 24)) bs))"
  using assms
  by (simp add: decode_head_def unat_initial_byte Let_def)

lemma encode_head_initial:
  obtains i bs where "i < 28" and "encode_head major n = initial_byte major i # bs"
proof -
  consider "n < 24" | "\<not> n < 24" "n < 2 ^ 8" | "\<not> n < 2 ^ 8" "n < 2 ^ 16"
    | "\<not> n < 2 ^ 16" "n < 2 ^ 32" | "\<not> n < 2 ^ 32"
    by linarith
  then show thesis
  proof cases
    case 1
    then show thesis using that [of n "[]"] by (simp add: encode_head_def)
  next
    case 2
    then show thesis using that [of 24 "be_bytes 1 n"] by (simp add: encode_head_def)
  next
    case 3
    then show thesis using that [of 25 "be_bytes 2 n"] by (simp add: encode_head_def)
  next
    case 4
    then show thesis using that [of 26 "be_bytes 4 n"] by (simp add: encode_head_def)
  next
    case 5
    then show thesis using that [of 27 "be_bytes 8 n"] by (simp add: encode_head_def)
  qed
qed

lemma decode_encode_head:
  assumes "major < 8" and "n < 2 ^ 64"
  shows "decode_head (encode_head major n @ rest) = Some (major, Some n, rest)"
proof -
  consider "n < 24" | "24 \<le> n" "n < 2 ^ 8" | "2 ^ 8 \<le> n" "n < 2 ^ 16"
    | "2 ^ 16 \<le> n" "n < 2 ^ 32" | "2 ^ 32 \<le> n"
    by linarith
  then show ?thesis
  proof cases
    case 1
    then show ?thesis
      using assms by (simp add: encode_head_def decode_head_initial)
  next
    case 2
    then have "be_nat (be_bytes 1 n) = n" by (intro be_nat_be_bytes) simp
    with 2 show ?thesis
      using assms by (simp add: encode_head_def decode_head_initial del: be_bytes.simps)
  next
    case 3
    then have "be_nat (be_bytes 2 n) = n" by (intro be_nat_be_bytes) simp
    with 3 show ?thesis
      using assms by (simp add: encode_head_def decode_head_initial del: be_bytes.simps)
  next
    case 4
    then have "be_nat (be_bytes 4 n) = n" by (intro be_nat_be_bytes) simp
    with 4 show ?thesis
      using assms by (simp add: encode_head_def decode_head_initial del: be_bytes.simps)
  next
    case 5
    from assms have "be_nat (be_bytes 8 n) = n" by (intro be_nat_be_bytes) simp
    with 5 show ?thesis
      using assms by (simp add: encode_head_def decode_head_initial del: be_bytes.simps)
  qed
qed

lemma items_left_simps [simp]:
  "items_left []"
  "items_left (Frame c None # fs)"
  "items_left (Frame c (Some n) # fs) = (n \<noteq> 0)"
  by (auto simp: items_left_def split: nat.splits)

lemma item_read_Some: "item_read (Frame c (Some n) # fs) = Frame c (Some (n - 1)) # fs"
  by (cases n) auto

lemma peek_state_items_left:
  "items_left fs \<Longrightarrow>
     cardano_cbor_reader_peek_state \<lparr>buffer = b # rest, frames = fs\<rparr> = initial_byte_state b fs"
  by (auto simp: cardano_cbor_reader_peek_state_def items_left_def
      split: list.splits cbor_frame.splits option.splits nat.splits)

lemma initial_byte_state_initial:
  assumes "major < 7" and "i < 31"
  shows "initial_byte_state (initial_byte major i) fs =
     Inr (if major = 0 then CARDANO_CBOR_READER_STATE_UNSIGNED_INTEGER
          else if major = 1 then CARDANO_CBOR_READER_STATE_NEGATIVE_INTEGER
          else if major = 2 then CARDANO_CBOR_READER_STATE_BYTESTRING
          else if major = 3 then CARDANO_CBOR_READER_STATE_TEXTSTRING
          else if major = 4 then CARDANO_CBOR_READER_STATE_START_ARRAY
          else if major = 5 then CARDANO_CBOR_READER_STATE_START_MAP
          else CARDANO_CBOR_READER_STATE_TAG)"
  using assms by (simp add: initial_byte_state_def unat_initial_byte Let_def)

lemma peek_state_encode_head:
  assumes "items_left fs" and "major < 7"
  shows "cardano_cbor_reader_peek_state \<lparr>buffer = encode_head major n @ rest, frames = fs\<rparr> =
     Inr (if major = 0 then CARDANO_CBOR_READER_STATE_UNSIGNED_INTEGER
          else if major = 1 then CARDANO_CBOR_READER_STATE_NEGATIVE_INTEGER
          else if major = 2 then CARDANO_CBOR_READER_STATE_BYTESTRING
          else if major = 3 then CARDANO_CBOR_READER_STATE_TEXTSTRING
          else if major = 4 then CARDANO_CBOR_READER_STATE_START_ARRAY
          else if major = 5 then CARDANO_CBOR_READER_STATE_START_MAP
          else CARDANO_CBOR_READER_STATE_TAG)"
proof -
  obtain i bs where "i < 28" and "encode_head major n = initial_byte major i # bs"
    using encode_head_initial by blast
  then show ?thesis
    using assms by (simp add: peek_state_items_left initial_byte_state_initial)
qed

lemma read_uint_encoded:
  assumes "items_left fs" and "n < 2 ^ 64"
  shows "cardano_cbor_reader_read_uint \<lparr>buffer = encode_head 0 n @ rest, frames = fs\<rparr> =
     Inr (of_nat n, \<lparr>buffer = rest, frames = item_read fs\<rparr>)"
  using assms
  by (simp add: cardano_cbor_reader_read_uint_def expect_state_def peek_state_encode_head
      decode_encode_head advance_def)

lemma read_bytestring_encoded:
  assumes "items_left fs" and "length bs = n" and "n < 2 ^ 64"
  shows "cardano_cbor_reader_read_bytestring
           \<lparr>buffer = encode_head 2 n @ bs @ rest, frames = fs\<rparr> =
     Inr (bs, \<lparr>buffer = rest, frames = item_read fs\<rparr>)"
  using assms
  by (simp add: cardano_cbor_reader_read_bytestring_def expect_state_def peek_state_encode_head
      read_string_def decode_encode_head advance_def)

lemma unat_of_char: "unat (of_char c :: byte) = of_char c"
proof -
  have "(of_char c :: byte) = of_nat (of_char c)" by (simp add: of_nat_of_char)
  then have "unat (of_char c :: byte) = (of_char c :: nat) mod 256" by (simp add: unat_of_nat)
  then show ?thesis by simp
qed

lemma chars_of_bytes: "map ((\<lambda>b :: byte. char_of (unat b)) \<circ> of_char) s = s"
  by (induction s) (auto simp: unat_of_char)

lemma read_textstring_encoded:
  assumes "items_left fs" and "length s = n" and "n < 2 ^ 64"
  shows "cardano_cbor_reader_read_textstring
           \<lparr>buffer = encode_head 3 n @ map of_char s @ rest, frames = fs\<rparr> =
     Inr (s, \<lparr>buffer = rest, frames = item_read fs\<rparr>)"
proof -
  have "decode_head (encode_head 3 n @ map of_char s @ rest) =
      Some (3, Some n, map of_char s @ rest)"
    using assms by (simp add: decode_encode_head)
  then show ?thesis
    using assms
    by (simp add: cardano_cbor_reader_read_textstring_def expect_state_def peek_state_encode_head
        read_string_def advance_def chars_of_bytes)
qed

lemma read_start_array_encoded:
  assumes "items_left fs" and "n < 2 ^ 64"
  shows "cardano_cbor_reader_read_start_array \<lparr>buffer = encode_head 4 n @ rest, frames = fs\<rparr> =
     Inr (int n, \<lparr>buffer = rest, frames = Frame Array_Container (Some n) # fs\<rparr>)"
  using assms
  by (simp add: cardano_cbor_reader_read_start_array_def expect_state_def peek_state_encode_head
      decode_encode_head)

lemma validate_end_array_done:
  "cardano_cbor_validate_end_array \<lparr>buffer = rest, frames = Frame Array_Container (Some 0) # fs\<rparr> =
     Inr \<lparr>buffer = rest, frames = item_read fs\<rparr>"
  by (simp add: cardano_cbor_validate_end_array_def cardano_cbor_reader_read_end_array_def
      expect_state_def cardano_cbor_reader_peek_state_def end_state_def)

lemma peek_state_null:
  "items_left fs \<Longrightarrow>
     cardano_cbor_reader_peek_state \<lparr>buffer = 0xF6 # rest, frames = fs\<rparr> =
       Inr CARDANO_CBOR_READER_STATE_NULL"
  by (simp add: peek_state_items_left initial_byte_state_def Let_def)

lemma read_null_encoded:
  "items_left fs \<Longrightarrow>
     cardano_cbor_reader_read_null \<lparr>buffer = 0xF6 # rest, frames = fs\<rparr> =
       Inr \<lparr>buffer = rest, frames = item_read fs\<rparr>"
  by (simp add: cardano_cbor_reader_read_null_def expect_state_def peek_state_null advance_def)

lemma unat_64_bound: "unat (v :: 64 word) < 18446744073709551616"
  using unsigned_less [of v] by simp

lemma be_bytes_1: "be_bytes (Suc 0) n = [of_nat (n mod 256)]"
  by simp

lemma be_bytes_2: "be_bytes 2 n = [of_nat (n div 256 mod 256), of_nat (n mod 256)]"
  unfolding numeral_2_eq_2 by simp

lemma be_bytes_4:
  "be_bytes 4 n =
     [of_nat (n div 256 div 256 div 256 mod 256), of_nat (n div 256 div 256 mod 256),
      of_nat (n div 256 mod 256), of_nat (n mod 256)]"
proof -
  have "(4 :: nat) = Suc (Suc (Suc (Suc 0)))" by simp
  then show ?thesis by (simp only: be_bytes.simps append.simps)
qed

lemma be_bytes_8:
  "be_bytes 8 n =
     [of_nat (n div 256 div 256 div 256 div 256 div 256 div 256 div 256 mod 256),
      of_nat (n div 256 div 256 div 256 div 256 div 256 div 256 mod 256),
      of_nat (n div 256 div 256 div 256 div 256 div 256 mod 256),
      of_nat (n div 256 div 256 div 256 div 256 mod 256),
      of_nat (n div 256 div 256 div 256 mod 256), of_nat (n div 256 div 256 mod 256),
      of_nat (n div 256 mod 256), of_nat (n mod 256)]"
proof -
  have "(8 :: nat) = Suc (Suc (Suc (Suc (Suc (Suc (Suc (Suc 0)))))))" by simp
  then show ?thesis by (simp only: be_bytes.simps append.simps)
qed

lemma decode_head_suffix:
  assumes "decode_head bs = Some (major, arg, rest)"
  shows "suffix rest bs"
proof (cases bs)
  case Nil
  with assms show ?thesis by (simp add: decode_head_def)
next
  case (Cons b bs')
  with assms have "rest = bs' \<or> (\<exists>k. rest = drop k bs')"
    by (auto simp: decode_head_def Let_def split: if_splits)
  then show ?thesis
    by (auto simp: Cons intro: suffix_ConsI suffix_drop)
qed

lemma skip_step_suffix:
  assumes "skip_step f st bs = Some (st', bs')"
  shows "suffix bs' bs"
proof (cases "f = Remaining 0")
  case True
  with assms show ?thesis by (simp add: skip_step_def)
next
  case False
  with assms obtain major arg rest where d: "decode_head bs = Some (major, arg, rest)"
    by (auto simp: skip_step_def split: option.splits)
  then have "suffix rest bs" by (rule decode_head_suffix)
  moreover from assms False d have "bs' = rest \<or> (\<exists>n. bs' = drop n rest)"
    by (auto simp: skip_step_def split: skip_frame.splits option.splits if_splits)
  ultimately show ?thesis
    using suffix_drop suffix_order.trans by blast
qed

lemma skip_items_suffix: "skip_items st bs = Some rest \<Longrightarrow> suffix rest bs"
proof (induction st bs rule: skip_items.induct)
  case (1 bs)
  then show ?case by simp
next
  case (2 f st bs)
  from "2.prems" obtain st' bs' where step: "skip_step f st bs = Some (st', bs')"
    and rest: "skip_items st' bs' = Some rest"
    by (auto split: option.splits)
  from "2.IH" [OF step refl rest] have "suffix rest bs'" .
  moreover from step have "suffix bs' bs" by (rule skip_step_suffix)
  ultimately show ?case by (rule suffix_order.trans)
qed

lemma item_skipped_Remaining: "item_skipped (Remaining n # st) = Remaining (n - 1) # st"
  by (cases n) auto






lemma read_encoded_value_prefix:
  assumes "cardano_cbor_reader_read_encoded_value reader = Inr (enc, reader')"
  shows "buffer reader = enc @ buffer reader' \<and> frames reader' = item_read (frames reader)"
proof -
  from assms obtain rest where sk: "skip_items [Remaining 1] (buffer reader) = Some rest"
    and enc: "enc = take (length (buffer reader) - length rest) (buffer reader)"
    and r': "reader' = advance reader rest"
    by (auto simp: cardano_cbor_reader_read_encoded_value_def split: sum.splits if_splits option.splits)
  from sk have "suffix rest (buffer reader)" by (rule skip_items_suffix)
  then obtain pre where pre: "buffer reader = pre @ rest" by (auto simp: suffix_def)
  with enc have "enc = pre" by simp
  with pre r' show ?thesis by (simp add: advance_def)
qed

section \<open>Properties of the register DRep certificate codec\<close>

lemma credential_roundtrip:
  assumes "length (credential_hash c) = 28"
  shows "\<exists>enc. (\<forall>w. cardano_credential_to_cbor c w = Inr (w @ enc)) \<and>
     (\<forall>rest fs. items_left fs \<longrightarrow>
        cardano_credential_from_cbor \<lparr>buffer = enc @ rest, frames = fs\<rparr> =
          Inr (c, \<lparr>buffer = rest, frames = item_read fs\<rparr>))"
proof -
  define t :: "64 word" where
    "t = (case credential_type c of
            CARDANO_CREDENTIAL_TYPE_KEY_HASH \<Rightarrow> 0
          | CARDANO_CREDENTIAL_TYPE_SCRIPT_HASH \<Rightarrow> 1)"
  define enc where
    "enc = encode_head 4 2 @ encode_head 0 (unat t) @
           encode_head 2 (length (credential_hash c)) @ credential_hash c"
  have wr: "cardano_credential_to_cbor c w = Inr (w @ enc)" for w
    by (simp add: cardano_credential_to_cbor_def cardano_cbor_writer_write_start_array_def
        cardano_cbor_writer_write_uint_def cardano_cbor_writer_write_bytestring_def enc_def t_def)
  have rd: "cardano_credential_from_cbor \<lparr>buffer = enc @ rest, frames = fs\<rparr> =
      Inr (c, \<lparr>buffer = rest, frames = item_read fs\<rparr>)" if fs: "items_left fs" for rest fs
  proof -
    have c: "c = \<lparr>credential_type = (if t = 0 then CARDANO_CREDENTIAL_TYPE_KEY_HASH
                                      else CARDANO_CREDENTIAL_TYPE_SCRIPT_HASH),
                  credential_hash = credential_hash c\<rparr>"
      by (cases "credential_type c") (simp_all add: t_def)
    have t01: "t = 0 \<or> t = 1"
      by (cases "credential_type c") (simp_all add: t_def)
    have "cardano_credential_from_cbor \<lparr>buffer = enc @ rest, frames = fs\<rparr> =
      Inr (\<lparr>credential_type = (if t = 0 then CARDANO_CREDENTIAL_TYPE_KEY_HASH
                                      else CARDANO_CREDENTIAL_TYPE_SCRIPT_HASH),
                  credential_hash = credential_hash c\<rparr>, \<lparr>buffer = rest, frames = item_read fs\<rparr>)"
      using fs assms t01
      by (elim disjE) (simp_all add: enc_def cardano_credential_from_cbor_def
          cardano_cbor_validate_array_of_n_elements_def
          read_start_array_encoded read_uint_encoded unat_64_bound read_bytestring_encoded
          item_read_Some validate_end_array_done)
    with c show ?thesis by simp
  qed
  from wr rd show ?thesis by blast
qed


lemma anchor_roundtrip:
  assumes "length (anchor_hash a) = 32" and "length (anchor_url a) < 2 ^ 64"
  shows "\<exists>enc. (\<forall>w. cardano_anchor_to_cbor a w = Inr (w @ enc)) \<and>
     (\<forall>rest fs. items_left fs \<longrightarrow>
        cardano_cbor_reader_peek_state \<lparr>buffer = enc @ rest, frames = fs\<rparr> =
          Inr CARDANO_CBOR_READER_STATE_START_ARRAY \<and>
        cardano_anchor_from_cbor \<lparr>buffer = enc @ rest, frames = fs\<rparr> =
          Inr (a, \<lparr>buffer = rest, frames = item_read fs\<rparr>))"
proof -
  define enc where
    "enc = encode_head 4 2 @ encode_head 3 (length (anchor_url a)) @ map of_char (anchor_url a) @
           encode_head 2 (length (anchor_hash a)) @ anchor_hash a"
  have wr: "cardano_anchor_to_cbor a w = Inr (w @ enc)" for w
    by (simp add: cardano_anchor_to_cbor_def cardano_cbor_writer_write_start_array_def
        cardano_cbor_writer_write_textstring_def cardano_cbor_writer_write_bytestring_def enc_def)
  have pk: "cardano_cbor_reader_peek_state \<lparr>buffer = enc @ rest, frames = fs\<rparr> =
      Inr CARDANO_CBOR_READER_STATE_START_ARRAY" if "items_left fs" for rest fs
    using that by (simp add: enc_def peek_state_encode_head)
  have rd: "cardano_anchor_from_cbor \<lparr>buffer = enc @ rest, frames = fs\<rparr> =
      Inr (a, \<lparr>buffer = rest, frames = item_read fs\<rparr>)" if "items_left fs" for rest fs
    using that assms
    by (simp add: enc_def cardano_anchor_from_cbor_def
        cardano_cbor_validate_array_of_n_elements_def
        read_start_array_encoded read_textstring_encoded read_bytestring_encoded
        item_read_Some validate_end_array_done)
  from wr pk rd show ?thesis by blast
qed

lemma register_drep_cert_roundtrip_in_context:
  assumes cred: "length (credential_hash (credential X)) = 28"
    and anch: "\<forall>a. anchor X = Some a \<longrightarrow>
       length (anchor_hash a) = 32 \<and> length (anchor_url a) < 2 ^ 64"
  shows "\<exists>enc. (\<forall>w. cardano_register_drep_cert_to_cbor cert_type X w = Inr (w @ enc)) \<and>
     (\<forall>rest fs. items_left fs \<longrightarrow>
        cardano_register_drep_cert_from_cbor cert_type \<lparr>buffer = enc @ rest, frames = fs\<rparr> =
          Inr (X, \<lparr>buffer = rest, frames = item_read fs\<rparr>))"
proof -
  obtain enc_c where
    wc: "\<And>w. cardano_credential_to_cbor (credential X) w = Inr (w @ enc_c)" and
    rc: "\<And>rest fs. items_left fs \<Longrightarrow>
        cardano_credential_from_cbor \<lparr>buffer = enc_c @ rest, frames = fs\<rparr> =
          Inr (credential X, \<lparr>buffer = rest, frames = item_read fs\<rparr>)"
    using credential_roundtrip [OF cred] by blast
  have X: "X = \<lparr>credential = credential X, deposit = deposit X, anchor = anchor X\<rparr>"
    by simp
  show ?thesis
  proof (cases "anchor X")
    case None
    define enc where
      "enc = encode_head 4 4 @ encode_head 0 (unat cert_type) @ enc_c @
             encode_head 0 (unat (deposit X)) @ [0xF6]"
    have wr: "cardano_register_drep_cert_to_cbor cert_type X w = Inr (w @ enc)" for w
      by (simp add: cardano_register_drep_cert_to_cbor_def EMBEDDED_GROUP_SIZE_def
          cardano_cbor_writer_write_start_array_def cardano_cbor_writer_write_uint_def wc
          cardano_cbor_writer_write_null_def None enc_def)
    have rd: "cardano_register_drep_cert_from_cbor cert_type \<lparr>buffer = enc @ rest, frames = fs\<rparr> =
        Inr (X, \<lparr>buffer = rest, frames = item_read fs\<rparr>)" if "items_left fs" for rest fs
    proof -
      have "cardano_register_drep_cert_from_cbor cert_type \<lparr>buffer = enc @ rest, frames = fs\<rparr> =
        Inr (\<lparr>credential = credential X, deposit = deposit X, anchor = None\<rparr>,
             \<lparr>buffer = rest, frames = item_read fs\<rparr>)"
        using that
        by (simp add: enc_def cardano_register_drep_cert_from_cbor_def EMBEDDED_GROUP_SIZE_def
            cardano_cbor_validate_array_of_n_elements_def cardano_cbor_validate_enum_value_def
            read_start_array_encoded read_uint_encoded unat_64_bound rc item_read_Some
            peek_state_null read_null_encoded validate_end_array_done
            cardano_register_drep_cert_new_def)
      with X None show ?thesis by simp
    qed
    from wr rd show ?thesis by blast
  next
    case (Some a)
    with anch have "length (anchor_hash a) = 32" "length (anchor_url a) < 2 ^ 64"
      by auto
    then obtain enc_a where
      wa: "\<And>w. cardano_anchor_to_cbor a w = Inr (w @ enc_a)" and
      pa: "\<And>rest fs. items_left fs \<Longrightarrow>
          cardano_cbor_reader_peek_state \<lparr>buffer = enc_a @ rest, frames = fs\<rparr> =
            Inr CARDANO_CBOR_READER_STATE_START_ARRAY" and
      ra: "\<And>rest fs. items_left fs \<Longrightarrow>
          cardano_anchor_from_cbor \<lparr>buffer = enc_a @ rest, frames = fs\<rparr> =
            Inr (a, \<lparr>buffer = rest, frames = item_read fs\<rparr>)"
      using anchor_roundtrip [of a] by blast
    define enc where
      "enc = encode_head 4 4 @ encode_head 0 (unat cert_type) @ enc_c @
             encode_head 0 (unat (deposit X)) @ enc_a"
    have wr: "cardano_register_drep_cert_to_cbor cert_type X w = Inr (w @ enc)" for w
      by (simp add: cardano_register_drep_cert_to_cbor_def EMBEDDED_GROUP_SIZE_def
          cardano_cbor_writer_write_start_array_def cardano_cbor_writer_write_uint_def wc wa
          Some enc_def)
    have rd: "cardano_register_drep_cert_from_cbor cert_type \<lparr>buffer = enc @ rest, frames = fs\<rparr> =
        Inr (X, \<lparr>buffer = rest, frames = item_read fs\<rparr>)" if "items_left fs" for rest fs
    proof -
      have "cardano_register_drep_cert_from_cbor cert_type \<lparr>buffer = enc @ rest, frames = fs\<rparr> =
        Inr (\<lparr>credential = credential X, deposit = deposit X, anchor = Some a\<rparr>,
             \<lparr>buffer = rest, frames = item_read fs\<rparr>)"
        using that
        by (simp add: enc_def cardano_register_drep_cert_from_cbor_def EMBEDDED_GROUP_SIZE_def
            cardano_cbor_validate_array_of_n_elements_def cardano_cbor_validate_enum_value_def
            read_start_array_encoded read_uint_encoded unat_64_bound rc item_read_Some
            pa ra validate_end_array_done cardano_register_drep_cert_new_def)
      with X Some show ?thesis by simp
    qed
    from wr rd show ?thesis by blast
  qed
qed

text \<open>
  Claim C2. For every register-DRep certificate \<open>X\<close> made of a credential, a deposit and an
  optional anchor, \<open>cardano_register_drep_cert_to_cbor\<close> succeeds and
  \<open>cardano_register_drep_cert_from_cbor\<close> on the produced bytes yields \<open>X\<close> again (same
  credential, same deposit, same anchor or absence of one) and consumes all of the bytes; an
  absent anchor is written as CBOR null (\<open>0xF6\<close>). A credential holds a 28-byte hash and an
  anchor a 32-byte hash, as their constructors require.
\<close>

theorem register_drep_cert_roundtrip:
  assumes "length (credential_hash (credential X)) = 28"
    and "\<forall>a. anchor X = Some a \<longrightarrow>
       length (anchor_hash a) = 32 \<and> length (anchor_url a) < 2 ^ 64"
  shows "\<exists>bytes. cardano_register_drep_cert_to_cbor cert_type X [] = Inr bytes \<and>
     cardano_register_drep_cert_from_cbor cert_type (cardano_cbor_reader_new bytes) =
       Inr (X, cardano_cbor_reader_new []) \<and>
     (anchor X = None \<longrightarrow> last bytes = 0xF6)"
proof -
  obtain enc where
    wr: "\<And>w. cardano_register_drep_cert_to_cbor cert_type X w = Inr (w @ enc)" and
    rd: "\<And>rest fs. items_left fs \<Longrightarrow>
        cardano_register_drep_cert_from_cbor cert_type \<lparr>buffer = enc @ rest, frames = fs\<rparr> =
          Inr (X, \<lparr>buffer = rest, frames = item_read fs\<rparr>)"
    using register_drep_cert_roundtrip_in_context [OF assms] by blast
  have "cardano_register_drep_cert_to_cbor cert_type X [] = Inr enc"
    using wr [of "[]"] by simp
  moreover have "cardano_register_drep_cert_from_cbor cert_type (cardano_cbor_reader_new enc) =
       Inr (X, cardano_cbor_reader_new [])"
    using rd [of "[]" "[]"] by (simp add: cardano_cbor_reader_new_def)
  moreover have "anchor X = None \<longrightarrow> last enc = 0xF6"
    using wr [of "[]"]
    by (auto simp: cardano_register_drep_cert_to_cbor_def EMBEDDED_GROUP_SIZE_def
        cardano_cbor_writer_write_start_array_def cardano_cbor_writer_write_uint_def
        cardano_cbor_writer_write_null_def cardano_credential_to_cbor_def
        cardano_cbor_writer_write_bytestring_def)
  ultimately show ?thesis by (intro exI [of _ enc]) simp
qed

theorem register_drep_cert_roundtrip_witness:
  "cardano_register_drep_cert_from_cbor 16
     (cardano_cbor_reader_new
        ([0x84, 0x10, 0x82, 0x00, 0x58, 0x1C] @ replicate 28 0 @
         [0x1A, 0x00, 0x1E, 0x84, 0x80, 0x82, 0x76,
          0x68, 0x74, 0x74, 0x70, 0x73, 0x3A, 0x2F, 0x2F, 0x77, 0x77, 0x77, 0x2E, 0x73, 0x6F,
          0x6D, 0x65, 0x75, 0x72, 0x6C, 0x2E, 0x69, 0x6F, 0x58, 0x20] @ replicate 32 0)) =
     Inr (\<lparr>credential = \<lparr>credential_type = CARDANO_CREDENTIAL_TYPE_KEY_HASH,
                           credential_hash = replicate 28 0\<rparr>,
            deposit = 2000000,
            anchor = Some \<lparr>anchor_url = ''https://www.someurl.io'',
                           anchor_hash = replicate 32 0\<rparr>\<rparr>,
          cardano_cbor_reader_new []) \<and>
   cardano_register_drep_cert_from_cbor 16
     (cardano_cbor_reader_new
        ([0x84, 0x10, 0x82, 0x00, 0x58, 0x1C] @ replicate 28 0 @
         [0x1A, 0x00, 0x1E, 0x84, 0x80, 0xF6])) =
     Inr (\<lparr>credential = \<lparr>credential_type = CARDANO_CREDENTIAL_TYPE_KEY_HASH,
                           credential_hash = replicate 28 0\<rparr>,
            deposit = 2000000, anchor = None\<rparr>,
          cardano_cbor_reader_new [])"
  using register_drep_cert_roundtrip
    [of "\<lparr>credential = \<lparr>credential_type = CARDANO_CREDENTIAL_TYPE_KEY_HASH,
                           credential_hash = replicate 28 0\<rparr>,
          deposit = 2000000,
          anchor = Some \<lparr>anchor_url = ''https://www.someurl.io'',
                         anchor_hash = replicate 32 0\<rparr>\<rparr>" 16]
    register_drep_cert_roundtrip
    [of "\<lparr>credential = \<lparr>credential_type = CARDANO_CREDENTIAL_TYPE_KEY_HASH,
                           credential_hash = replicate 28 0\<rparr>,
          deposit = 2000000, anchor = None\<rparr>" 16]
  by (simp add: cardano_register_drep_cert_to_cbor_def EMBEDDED_GROUP_SIZE_def
        cardano_cbor_writer_write_start_array_def cardano_cbor_writer_write_uint_def
        cardano_cbor_writer_write_null_def cardano_credential_to_cbor_def
        cardano_anchor_to_cbor_def cardano_cbor_writer_write_textstring_def
        cardano_cbor_writer_write_bytestring_def encode_head_def initial_byte_def
        be_bytes_1 be_bytes_2 be_bytes_4 del: be_bytes.simps)

section \<open>Properties of the metadatum CBOR codec\<close>

text \<open>
  Claim C3. \<open>cardano_metadatum_to_cbor\<close> fails with the bounded-bytes size error for every
  bytes metadatum of more than 64 bytes and with the text-string size error for every text
  metadatum of more than 64 bytes. The limits are on the write side only:
  \<open>cardano_metadatum_from_cbor\<close> reads back a byte string or a text string of any length
  that the CBOR writer has encoded.
\<close>

theorem metadatum_size_limits_on_write_only:
  "(64 < length bytes \<longrightarrow>
      cardano_metadatum_to_cbor map_to_cbor list_to_cbor (Metadatum_Bytes bytes) writer =
        Inl CARDANO_ERROR_INVALID_METADATUM_BOUNDED_BYTES_SIZE) \<and>
   (64 < length text \<longrightarrow>
      cardano_metadatum_to_cbor map_to_cbor list_to_cbor (Metadatum_Text text) writer =
        Inl CARDANO_ERROR_INVALID_METADATUM_TEXT_STRING_SIZE) \<and>
   (length bytes < 2 ^ 64 \<longrightarrow>
      cardano_cbor_writer_write_bytestring [] bytes = Inr encoded_bytes \<longrightarrow>
      cardano_metadatum_from_cbor list_from_cbor map_from_cbor
          (cardano_cbor_reader_new encoded_bytes) =
        Inr (Metadatum_Bytes bytes, cardano_cbor_reader_new [])) \<and>
   (length text < 2 ^ 64 \<longrightarrow>
      cardano_cbor_writer_write_textstring [] text = Inr encoded_text \<longrightarrow>
      cardano_metadatum_from_cbor list_from_cbor map_from_cbor
          (cardano_cbor_reader_new encoded_text) =
        Inr (Metadatum_Text text, cardano_cbor_reader_new []))"
proof (intro conjI impI)
  assume "64 < length bytes"
  then show "cardano_metadatum_to_cbor map_to_cbor list_to_cbor (Metadatum_Bytes bytes) writer =
        Inl CARDANO_ERROR_INVALID_METADATUM_BOUNDED_BYTES_SIZE"
    by (simp add: cardano_metadatum_to_cbor_def)
next
  assume "64 < length text"
  then show "cardano_metadatum_to_cbor map_to_cbor list_to_cbor (Metadatum_Text text) writer =
        Inl CARDANO_ERROR_INVALID_METADATUM_TEXT_STRING_SIZE"
    by (simp add: cardano_metadatum_to_cbor_def)
next
  assume len: "length bytes < 2 ^ 64"
    and enc: "cardano_cbor_writer_write_bytestring [] bytes = Inr encoded_bytes"
  from enc have e: "encoded_bytes = encode_head 2 (length bytes) @ bytes @ []"
    by (simp add: cardano_cbor_writer_write_bytestring_def)
  have pk: "cardano_cbor_reader_peek_state
       \<lparr>buffer = encode_head 2 (length bytes) @ bytes @ [], frames = []\<rparr> =
      Inr CARDANO_CBOR_READER_STATE_BYTESTRING"
    by (simp add: peek_state_encode_head del: append_Nil2)
  have rd: "cardano_cbor_reader_read_bytestring
       \<lparr>buffer = encode_head 2 (length bytes) @ bytes @ [], frames = []\<rparr> =
      Inr (bytes, \<lparr>buffer = [], frames = item_read []\<rparr>)"
    using len by (intro read_bytestring_encoded) simp_all
  show "cardano_metadatum_from_cbor list_from_cbor map_from_cbor
          (cardano_cbor_reader_new encoded_bytes) =
        Inr (Metadatum_Bytes bytes, cardano_cbor_reader_new [])"
    unfolding e cardano_cbor_reader_new_def cardano_metadatum_from_cbor_def pk rd by simp
next
  assume len: "length text < 2 ^ 64"
    and enc: "cardano_cbor_writer_write_textstring [] text = Inr encoded_text"
  from enc have e: "encoded_text = encode_head 3 (length text) @ map of_char text @ []"
    by (simp add: cardano_cbor_writer_write_textstring_def)
  have pk: "cardano_cbor_reader_peek_state
       \<lparr>buffer = encode_head 3 (length text) @ map of_char text @ [], frames = []\<rparr> =
      Inr CARDANO_CBOR_READER_STATE_TEXTSTRING"
    by (simp add: peek_state_encode_head del: append_Nil2)
  have rd: "cardano_cbor_reader_read_textstring
       \<lparr>buffer = encode_head 3 (length text) @ map of_char text @ [], frames = []\<rparr> =
      Inr (text, \<lparr>buffer = [], frames = item_read []\<rparr>)"
    using len by (intro read_textstring_encoded) simp_all
  show "cardano_metadatum_from_cbor list_from_cbor map_from_cbor
          (cardano_cbor_reader_new encoded_text) =
        Inr (Metadatum_Text text, cardano_cbor_reader_new [])"
    unfolding e cardano_cbor_reader_new_def cardano_metadatum_from_cbor_def pk rd by simp
qed

theorem metadatum_size_limits_on_write_only_witness:
  "cardano_metadatum_to_cbor (\<lambda>m w. Inr w) (\<lambda>l w. Inr w) (Metadatum_Bytes (replicate 65 7)) [] =
     Inl CARDANO_ERROR_INVALID_METADATUM_BOUNDED_BYTES_SIZE \<and>
   cardano_metadatum_to_cbor (\<lambda>m w. Inr w) (\<lambda>l w. Inr w)
       (Metadatum_Text (replicate 65 (CHR ''a''))) [] =
     Inl CARDANO_ERROR_INVALID_METADATUM_TEXT_STRING_SIZE \<and>
   cardano_metadatum_from_cbor (\<lambda>r. Inl CARDANO_ERROR_DECODING) (\<lambda>r. Inl CARDANO_ERROR_DECODING)
       (cardano_cbor_reader_new ([0x58, 0x41] @ replicate 65 7)) =
     Inr (Metadatum_Bytes (replicate 65 7), cardano_cbor_reader_new []) \<and>
   cardano_metadatum_from_cbor (\<lambda>r. Inl CARDANO_ERROR_DECODING) (\<lambda>r. Inl CARDANO_ERROR_DECODING)
       (cardano_cbor_reader_new ([0x78, 0x41] @ replicate 65 0x61)) =
     Inr (Metadatum_Text (replicate 65 (CHR ''a'')), cardano_cbor_reader_new [])"
  using metadatum_size_limits_on_write_only
    [of "replicate 65 7" "\<lambda>m w. Inr w" "\<lambda>l w. Inr w" "[]" "replicate 65 (CHR ''a'')"
        "[0x58, 0x41] @ replicate 65 7" "\<lambda>r. Inl CARDANO_ERROR_DECODING"
        "\<lambda>r. Inl CARDANO_ERROR_DECODING" "[0x78, 0x41] @ replicate 65 0x61"]
  by (simp add: cardano_cbor_writer_write_bytestring_def cardano_cbor_writer_write_textstring_def
      encode_head_def initial_byte_def be_bytes_1 del: be_bytes.simps)

section \<open>Properties of the plutus data set codec\<close>

lemma from_cbor_cache:
  assumes "cardano_plutus_data_set_from_cbor fuel pd_from reader = Some (Inr (s, reader'))"
  shows "\<exists>enc r. cardano_cbor_reader_read_encoded_value reader = Inr (enc, r) \<and>
     cbor_cache s = Some enc"
  using assms
  by (auto simp: cardano_plutus_data_set_from_cbor_def cardano_cbor_reader_clone_def Let_def
      split: sum.splits option.splits if_splits prod.splits)

text \<open>
  The bytes \<open>80 00\<close> (an empty array followed by one more data item) decode to a set whose
  cache holds \<open>80\<close> only, and the set is written back as \<open>80\<close>: the bytes after the first
  data item are not part of the re-encoding.
\<close>

theorem plutus_data_set_reencode_counterexample:
  "cardano_plutus_data_set_from_cbor 1 cardano_cbor_reader_read_uint
     (cardano_cbor_reader_new [0x80, 0x00]) =
     Some (Inr (\<lparr>array = [], uses_tags = False, cbor_cache = Some [0x80]\<rparr>,
                \<lparr>buffer = [0x00], frames = []\<rparr>)) \<and>
   cardano_plutus_data_set_to_cbor (\<lambda>element writer. cardano_cbor_writer_write_uint writer element)
     \<lparr>array = [], uses_tags = False, cbor_cache = Some [0x80]\<rparr> [] = Inr [0x80] \<and>
   cardano_plutus_data_set_to_cbor (\<lambda>element writer. cardano_cbor_writer_write_uint writer element)
     \<lparr>array = [], uses_tags = False, cbor_cache = Some [0x80]\<rparr> [] \<noteq> Inr [0x80, 0x00]"
  by (simp add: cardano_plutus_data_set_from_cbor_def cardano_plutus_data_set_new_def
      cardano_cbor_reader_clone_def cardano_cbor_reader_new_def
      cardano_cbor_reader_read_encoded_value_def cardano_cbor_reader_peek_state_def
      initial_byte_state_def skip_step_def decode_head_def advance_def Let_def
      cardano_cbor_reader_read_start_array_def expect_state_def end_state_def
      cardano_cbor_validate_end_array_def cardano_cbor_reader_read_end_array_def
      cardano_plutus_data_set_to_cbor_def cardano_cbor_writer_write_encoded_def)

text \<open>
  Claim C1. For every byte string \<open>b\<close> that \<open>cardano_plutus_data_set_from_cbor\<close> decodes,
  the decoder captures the first encoded data item of \<open>b\<close> (what
  \<open>cardano_cbor_reader_read_encoded_value\<close> reads) into the CBOR cache of the set, and
  \<open>cardano_plutus_data_set_to_cbor\<close> writes the cached bytes verbatim: the re-encoding is
  \<open>b\<close> without what follows its first data item, hence \<open>b\<close> itself when nothing follows.
\<close>

theorem plutus_data_set_reencodes_captured_item:
  assumes "cardano_plutus_data_set_from_cbor fuel pd_from (cardano_cbor_reader_new b) =
             Some (Inr (s, reader'))"
  shows "\<exists>enc rest. b = enc @ rest \<and>
     cardano_cbor_reader_read_encoded_value (cardano_cbor_reader_new b) =
       Inr (enc, cardano_cbor_reader_new rest) \<and>
     cbor_cache s = Some enc \<and>
     cardano_plutus_data_set_to_cbor pd_to s writer = Inr (writer @ enc)"
proof -
  from from_cbor_cache [OF assms] obtain enc r where
    rd: "cardano_cbor_reader_read_encoded_value (cardano_cbor_reader_new b) = Inr (enc, r)"
    and cache: "cbor_cache s = Some enc"
    by blast
  from read_encoded_value_prefix [OF rd]
  have b: "b = enc @ buffer r" and fr: "frames r = []"
    by (simp_all add: cardano_cbor_reader_new_def)
  from fr have r: "r = cardano_cbor_reader_new (buffer r)"
    by (simp add: cardano_cbor_reader_new_def)
  from cache have "cardano_plutus_data_set_to_cbor pd_to s writer = Inr (writer @ enc)"
    by (simp add: cardano_plutus_data_set_to_cbor_def cardano_cbor_writer_write_encoded_def)
  with b rd r cache show ?thesis by metis
qed

theorem plutus_data_set_reencodes_captured_item_witness:
  "cardano_plutus_data_set_from_cbor (Suc (Suc (Suc 0))) cardano_cbor_reader_read_uint
     (cardano_cbor_reader_new [0xD9, 0x01, 0x02, 0x82, 0x01, 0x02]) =
     Some (Inr (\<lparr>array = [1, 2], uses_tags = True,
                  cbor_cache = Some [0xD9, 0x01, 0x02, 0x82, 0x01, 0x02]\<rparr>,
                cardano_cbor_reader_new [])) \<and>
   cardano_plutus_data_set_to_cbor (\<lambda>element writer. cardano_cbor_writer_write_uint writer element)
     \<lparr>array = [1, 2], uses_tags = True,
       cbor_cache = Some [0xD9, 0x01, 0x02, 0x82, 0x01, 0x02]\<rparr> [] =
     Inr [0xD9, 0x01, 0x02, 0x82, 0x01, 0x02]"
proof -
  have dec: "cardano_plutus_data_set_from_cbor (Suc (Suc (Suc 0))) cardano_cbor_reader_read_uint
     (cardano_cbor_reader_new [0xD9, 0x01, 0x02, 0x82, 0x01, 0x02]) =
     Some (Inr (\<lparr>array = [1, 2], uses_tags = True,
                  cbor_cache = Some [0xD9, 0x01, 0x02, 0x82, 0x01, 0x02]\<rparr>,
                cardano_cbor_reader_new []))"
    by (simp add: cardano_plutus_data_set_from_cbor_def cardano_plutus_data_set_new_def
      cardano_cbor_reader_clone_def cardano_cbor_reader_new_def
      cardano_cbor_reader_read_encoded_value_def cardano_cbor_reader_peek_state_def
      initial_byte_state_def skip_step_def decode_head_def advance_def Let_def
      cardano_cbor_reader_read_start_array_def expect_state_def end_state_def
      cardano_cbor_validate_end_array_def cardano_cbor_reader_read_end_array_def
      cardano_cbor_validate_tag_def cardano_cbor_reader_read_tag_def CARDANO_CBOR_TAG_SET_def
      cardano_cbor_reader_read_uint_def be_nat_def item_skipped_Remaining item_read_Some)
  from plutus_data_set_reencodes_captured_item [OF dec,
      of "\<lambda>element writer. cardano_cbor_writer_write_uint writer element" "[]"]
  show ?thesis
    using dec by auto
qed












end
